theory Spec2Isabelle
  imports Complex_Main "HOL-Library.Word"
begin

section \<open>JavaScript numbers\<close>

text \<open>
  A JavaScript number is an IEEE 754 binary64 value: a finite double, given here by the
  rational it stands for, an infinity, or \<open>NaN\<close>. The sign of zero is not kept: sums,
  products, \<open>Math.floor\<close>, template strings and JSON, which is all the handlers do with
  these numbers, do not tell the two zeros apart.
\<close>

datatype number = Finite rat | PosInf | NegInf | NaN

text \<open>\<open>ilog2 n\<close> is the position of the highest bit of \<open>n\<close>.\<close>

fun ilog2 :: "nat \<Rightarrow> nat" where
  "ilog2 n = (if n < 2 then 0 else Suc (ilog2 (n div 2)))"

declare ilog2.simps [simp del]

text \<open>The binary exponent of a positive rational: \<open>2 ^ e \<le> a < 2 ^ (e + 1)\<close>.\<close>

definition exponent :: "rat \<Rightarrow> int" where
  "exponent a =
     (if 1 \<le> a then int (ilog2 (nat \<lfloor>a\<rfloor>))
      else - int (Suc (ilog2 (nat \<lceil>1 / a\<rceil> - 1))))"

definition pow2 :: "int \<Rightarrow> rat" where
  "pow2 e = (if 0 \<le> e then 2 ^ nat e else 1 / 2 ^ nat (- e))"

text \<open>Rounding to the nearest integer, a tie going to the even one.\<close>

definition round_half_even :: "rat \<Rightarrow> int" where
  "round_half_even q =
     (if q - of_int \<lfloor>q\<rfloor> < 1 / 2 then \<lfloor>q\<rfloor>
      else if 1 / 2 < q - of_int \<lfloor>q\<rfloor> then \<lfloor>q\<rfloor> + 1
      else if even \<lfloor>q\<rfloor> then \<lfloor>q\<rfloor> else \<lfloor>q\<rfloor> + 1)"

text \<open>
  The spacing of the doubles around a positive \<open>a\<close>: 53 significant bits, and the
  spacing of the subnormal doubles below \<open>2 ^ - 1022\<close>.
\<close>

definition ulp :: "rat \<Rightarrow> rat" where
  "ulp a = pow2 (max (exponent a) (- 1022) - 52)"

definition nearest :: "rat \<Rightarrow> rat" where
  "nearest a = of_int (round_half_even (a / ulp a)) * ulp a"

text \<open>
  The number a rational rounds to (round to nearest, ties to even, overflow to an
  infinity): what reading a JSON number gives, and what every arithmetic operation does
  to its exact result.
\<close>

definition to_number :: "rat \<Rightarrow> number" where
  "to_number x =
     (if x = 0 then Finite 0
      else if pow2 1024 \<le> nearest \<bar>x\<bar> then (if 0 < x then PosInf else NegInf)
      else Finite (if 0 < x then nearest \<bar>x\<bar> else - nearest \<bar>x\<bar>))"

text \<open>The operators \<open>+\<close> and \<open>*\<close> on numbers, and \<open>Math.floor\<close>.\<close>

fun js_add :: "number \<Rightarrow> number \<Rightarrow> number" where
  "js_add (Finite a) (Finite b) = to_number (a + b)"
| "js_add NaN _ = NaN"
| "js_add _ NaN = NaN"
| "js_add PosInf NegInf = NaN"
| "js_add NegInf PosInf = NaN"
| "js_add PosInf _ = PosInf"
| "js_add _ PosInf = PosInf"
| "js_add NegInf _ = NegInf"
| "js_add _ NegInf = NegInf"

fun js_mul :: "number \<Rightarrow> number \<Rightarrow> number" where
  "js_mul (Finite a) (Finite b) = to_number (a * b)"
| "js_mul NaN _ = NaN"
| "js_mul _ NaN = NaN"
| "js_mul (Finite a) PosInf = (if a = 0 then NaN else if 0 < a then PosInf else NegInf)"
| "js_mul (Finite a) NegInf = (if a = 0 then NaN else if 0 < a then NegInf else PosInf)"
| "js_mul PosInf (Finite b) = (if b = 0 then NaN else if 0 < b then PosInf else NegInf)"
| "js_mul NegInf (Finite b) = (if b = 0 then NaN else if 0 < b then NegInf else PosInf)"
| "js_mul PosInf PosInf = PosInf"
| "js_mul PosInf NegInf = NegInf"
| "js_mul NegInf PosInf = NegInf"
| "js_mul NegInf NegInf = PosInf"

fun Math_floor :: "number \<Rightarrow> number" where
  "Math_floor (Finite a) = Finite (of_int \<lfloor>a\<rfloor>)"
| "Math_floor n = n"

section \<open>Data model\<close>

text \<open>
  The storefront keeps its data in a hosted record store and reads it as JSON. A price is
  kept as the decimal the store holds; a handler that computes with it reads it as a
  number (\<open>to_number\<close>). Quantities, stock levels, ratings and loyalty points are
  integers; where a handler only adds or subtracts small integers or compares them, the
  model computes on the integers.
\<close>

type_synonym user_id = string
type_synonym product_id = string

text \<open>The \<open>CartItem\<close> interface of the cart and checkout pages.\<close>

record cart_item =
  item_id :: product_id
  item_name :: string
  item_price :: rat
  item_image :: "string option"
  item_quantity :: int

text \<open>The \<open>Product\<close> interface of the product card.\<close>

record product =
  prod_id :: product_id
  prod_name :: string
  prod_price :: rat
  prod_image :: "string option"
  prod_stock :: int

text \<open>
  A row of the \<open>reviews\<close> table, as \<open>handleSubmitReview\<close> inserts it. The comment is a
  JavaScript string: a sequence of UTF-16 code units.
\<close>

record review =
  review_product_id :: product_id
  review_user_id :: user_id
  rating :: int
  comment :: "16 word list"

text \<open>
  A row of the \<open>orders\<close> table, as \<open>handleSubmit\<close> inserts it. The total is the number the
  handler hands to the store client (JSON has no infinity or \<open>NaN\<close>: they are sent as
  null).
\<close>

record order =
  order_user_id :: user_id
  order_products :: "cart_item list"
  order_total :: number
  order_status :: string

section \<open>Cart arithmetic\<close>

text \<open>\<open>Array.prototype.findIndex\<close>: the index of the first match, or \<open>-1\<close>.\<close>

fun findIndex :: "('a \<Rightarrow> bool) \<Rightarrow> 'a list \<Rightarrow> int" where
  "findIndex P [] = - 1"
| "findIndex P (x # xs) =
     (if P x then 0
      else (let r = findIndex P xs in if r < 0 then - 1 else r + 1))"

text \<open>
  The block of \<open>handleAddToCart\<close> that computes \<open>updatedProducts\<close> from
  \<open>existingProducts\<close> and the product being added (the same text in the product card,
  the product detail page and the wishlist page).
\<close>

definition updatedProducts :: "cart_item list \<Rightarrow> product \<Rightarrow> cart_item list" where
  "updatedProducts existingProducts p =
     (let existingProductIndex = findIndex (\<lambda>item. item_id item = prod_id p) existingProducts
      in if existingProductIndex \<ge> 0
         then existingProducts[nat existingProductIndex :=
                (existingProducts ! nat existingProductIndex)
                  \<lparr>item_quantity :=
                     item_quantity (existingProducts ! nat existingProductIndex) + 1\<rparr>]
         else existingProducts @
                [\<lparr>item_id = prod_id p, item_name = prod_name p, item_price = prod_price p,
                  item_image = prod_image p, item_quantity = 1\<rparr>])"

text \<open>
  \<open>getTotalPrice\<close>: a left-to-right \<open>reduce\<close> from 0 in double arithmetic; each product
  \<open>item.price * item.quantity\<close> and each partial sum is rounded.
\<close>

definition getTotalPrice :: "cart_item list \<Rightarrow> number" where
  "getTotalPrice cartItems =
     foldl (\<lambda>total item.
              js_add total (js_mul (to_number (item_price item))
                                   (to_number (of_int (item_quantity item)))))
       (Finite 0) cartItems"

section \<open>Aggregate rating\<close>

text \<open>
  JavaScript's \<open>/\<close> never raises, but a zero divisor gives \<open>NaN\<close> or an infinity.
  The model returns \<open>None\<close> for those, so that a result \<open>Some r\<close> is a proper number.
  Ratings are small integers, so their sum is exact; the mean is given exactly (the
  program returns the double nearest to it).
\<close>

definition js_divide :: "rat \<Rightarrow> rat \<Rightarrow> rat option" where
  "js_divide a b = (if b = 0 then None else Some (a / b))"

definition averageRating :: "review list \<Rightarrow> rat option" where
  "averageRating reviews =
     (if length reviews > 0
      then js_divide (of_int (foldl (\<lambda>sum r. sum + rating r) 0 reviews))
                     (of_nat (length reviews))
      else Some 0)"

section \<open>The record store and the user interface\<close>

text \<open>An error object of the store client; the handlers only read its \<open>code\<close>.\<close>

record pg_error =
  error_code :: string

text \<open>A row of \<open>profiles\<close>, restricted to the column the handlers touch (it may be null).\<close>

record profile =
  loyalty_points :: "int option"

text \<open>
  The write requests the handlers issue against the store. The sources do not show how the
  store makes row identifiers: a wishlist row is identified by its pair of user and
  product, which is a key of the table.
\<close>

datatype request =
    InsertOrder order
  | UpdateLoyaltyPoints user_id number
  | UpdateProductStock product_id int
  | UpdateInventoryStock product_id int
  | InsertCart user_id
  | UpdateCartProducts user_id "cart_item list"
  | UpsertCart user_id "cart_item list"
  | InsertWishlist user_id product_id
  | DeleteWishlist "user_id \<times> product_id"
  | InsertReview review

text \<open>
  The world outside a handler: the identity provider's current user, the tables (each
  restricted to the columns the handlers use; \<open>products\<close> and \<open>inventory\<close> to their
  \<open>stock\<close>, the \<open>last_updated\<close> time stamp of \<open>inventory\<close> is left out), and the
  write requests issued so far, oldest first. The \<open>products\<close> column of a cart is JSON:
  \<open>None\<close> stands for a value that is not an array.
\<close>

record world =
  auth_user :: "user_id option"
  tbl_orders :: "order list"
  tbl_profiles :: "user_id \<rightharpoonup> profile"
  tbl_products :: "product_id \<rightharpoonup> int"
  tbl_inventory :: "product_id \<rightharpoonup> int"
  tbl_carts :: "user_id \<rightharpoonup> cart_item list option"
  tbl_wishlists :: "(user_id \<times> product_id) list"
  tbl_reviews :: "review list"
  sent :: "request list"

text \<open>
  What the integer column \<open>loyalty_points\<close> holds after it is set to a number: the
  numbers \<open>handleSubmit\<close> sends are whole when they are finite, and the others go out as
  null.
\<close>

fun stored_points :: "number \<Rightarrow> int option" where
  "stored_points (Finite r) = Some \<lfloor>r\<rfloor>"
| "stored_points _ = None"

text \<open>
  What a request does when the store accepts it. An \<open>update\<close> filtered by a key changes
  the matching row and nothing when there is none; an \<open>insert\<close> adds a row; an
  \<open>upsert\<close> does either; a \<open>delete\<close> removes the matching row.
\<close>

fun apply_request :: "request \<Rightarrow> world \<Rightarrow> world" where
  "apply_request (InsertOrder ord) w = w\<lparr>tbl_orders := tbl_orders w @ [ord]\<rparr>"
| "apply_request (UpdateLoyaltyPoints u n) w =
     (case tbl_profiles w u of
        None \<Rightarrow> w
      | Some pr \<Rightarrow>
          w\<lparr>tbl_profiles := (tbl_profiles w)(u \<mapsto> pr\<lparr>loyalty_points := stored_points n\<rparr>)\<rparr>)"
| "apply_request (UpdateProductStock pid n) w =
     (case tbl_products w pid of
        None \<Rightarrow> w
      | Some _ \<Rightarrow> w\<lparr>tbl_products := (tbl_products w)(pid \<mapsto> n)\<rparr>)"
| "apply_request (UpdateInventoryStock pid n) w =
     (case tbl_inventory w pid of
        None \<Rightarrow> w
      | Some _ \<Rightarrow> w\<lparr>tbl_inventory := (tbl_inventory w)(pid \<mapsto> n)\<rparr>)"
| "apply_request (InsertCart u) w = w\<lparr>tbl_carts := (tbl_carts w)(u \<mapsto> Some [])\<rparr>"
| "apply_request (UpdateCartProducts u items) w =
     (case tbl_carts w u of
        None \<Rightarrow> w
      | Some _ \<Rightarrow> w\<lparr>tbl_carts := (tbl_carts w)(u \<mapsto> Some items)\<rparr>)"
| "apply_request (UpsertCart u items) w = w\<lparr>tbl_carts := (tbl_carts w)(u \<mapsto> Some items)\<rparr>"
| "apply_request (InsertWishlist u pid) w = w\<lparr>tbl_wishlists := tbl_wishlists w @ [(u, pid)]\<rparr>"
| "apply_request (DeleteWishlist wid) w =
     w\<lparr>tbl_wishlists := filter (\<lambda>row. row \<noteq> wid) (tbl_wishlists w)\<rparr>"
| "apply_request (InsertReview r) w = w\<lparr>tbl_reviews := tbl_reviews w @ [r]\<rparr>"

text \<open>
  Modelled from the spec: the schema of the \<open>wishlists\<close> table is not part of the sources.
  The spec names a duplicate-key failure on the wishlist insert, and the handlers test
  for the code \<open>23505\<close> (unique violation): a user and product pair is stored once.
\<close>

fun constraint_violation :: "world \<Rightarrow> request \<Rightarrow> pg_error option" where
  "constraint_violation w (InsertWishlist u pid) =
     (if (u, pid) \<in> set (tbl_wishlists w) then Some \<lparr>error_code = ''23505''\<rparr> else None)"
| "constraint_violation w _ = None"

text \<open>
  Failures of the store or the network are an input of the model: \<open>fl\<close> gives the error a
  write request fails with, if any (the same request meets the same reply each time it
  is sent). A request that fails changes no table. The client returns the error in its
  result rather than throwing it. Reads are answered from the tables.
\<close>

type_synonym faults = "request \<Rightarrow> pg_error option"

definition no_faults :: faults where
  "no_faults = (\<lambda>_. None)"

definition reply :: "faults \<Rightarrow> world \<Rightarrow> request \<Rightarrow> pg_error option" where
  "reply fl w req = (case fl req of Some e \<Rightarrow> Some e | None \<Rightarrow> constraint_violation w req)"

definition send :: "faults \<Rightarrow> request \<Rightarrow> world \<Rightarrow> pg_error option \<times> world" where
  "send fl req w =
     (case reply fl w req of
        Some e \<Rightarrow> (Some e, w\<lparr>sent := sent w @ [req]\<rparr>)
      | None \<Rightarrow> (None, (apply_request req w)\<lparr>sent := sent w @ [req]\<rparr>))"

text \<open>
  What a handler shows: its toasts, by title, and its navigations. Loading and processing
  flags, console logging and the optional callbacks of the product card are not part of
  the model.
\<close>

datatype ui_event =
    ToastAuthRequired string
  | ToastAddedToCart string
  | ToastAddedToWishlist string
  | ToastReviewSubmitted
  | ToastOrderPlaced number
  | ToastItemRemoved
  | ToastRemovedFromWishlist
  | ToastError string
  | Navigate string

section \<open>Checkout\<close>

text \<open>
  \<open>fetchCartAndUser\<close>, run when the checkout page loads: it fills the page's \<open>user\<close> and
  \<open>cartItems\<close> (initially none and empty), or navigates to the sign-in page.
\<close>

definition fetchCartAndUser :: "world \<Rightarrow> ui_event list \<times> user_id option \<times> cart_item list" where
  "fetchCartAndUser w =
     (case auth_user w of
        None \<Rightarrow> ([Navigate ''/auth''], None, [])
      | Some u \<Rightarrow>
          ([], Some u, (case tbl_carts w u of Some (Some products) \<Rightarrow> products | _ \<Rightarrow> [])))"

text \<open>The \<open>for (const item of cartItems)\<close> loop of \<open>handleSubmit\<close>; its awaited results are dropped.\<close>

fun stock_loop :: "faults \<Rightarrow> cart_item list \<Rightarrow> world \<Rightarrow> world" where
  "stock_loop fl [] w = w"
| "stock_loop fl (item # rest) w =
     (case tbl_products w (item_id item) of
        None \<Rightarrow> stock_loop fl rest w
      | Some stock \<Rightarrow>
          (let newStock = max 0 (stock - item_quantity item);
               w1 = snd (send fl (UpdateProductStock (item_id item) newStock) w);
               w2 = snd (send fl (UpdateInventoryStock (item_id item) newStock) w1)
           in stock_loop fl rest w2))"

text \<open>The row \<open>handleSubmit\<close> inserts into \<open>orders\<close>.\<close>

definition order_row :: "user_id \<Rightarrow> cart_item list \<Rightarrow> order" where
  "order_row u cartItems =
     \<lparr>order_user_id = u, order_products = cartItems,
      order_total = getTotalPrice cartItems, order_status = ''pending''\<rparr>"

text \<open>
  \<open>currentPoints = profile?.loyalty_points || 0\<close>, after the select on \<open>profiles\<close>: the
  integer the column holds, which \<open>handleSubmit\<close> then reads as a number.
\<close>

definition currentPoints :: "world \<Rightarrow> user_id \<Rightarrow> int" where
  "currentPoints w u =
     (case tbl_profiles w u of
        None \<Rightarrow> 0
      | Some pr \<Rightarrow> (case loyalty_points pr of None \<Rightarrow> 0 | Some n \<Rightarrow> n))"

text \<open>
  \<open>handleSubmit\<close> of the checkout page, on the page's \<open>user\<close> and \<open>cartItems\<close>. It returns
  nothing; the model returns what it shows and the world it leaves.
\<close>

definition handleSubmit ::
  "faults \<Rightarrow> user_id option \<Rightarrow> cart_item list \<Rightarrow> world \<Rightarrow> ui_event list \<times> world" where
  "handleSubmit fl user cartItems w =
     (case user of
        None \<Rightarrow> ([], w)
      | Some u \<Rightarrow>
          if length cartItems = 0 then ([], w)
          else
            (let total = getTotalPrice cartItems;
                 loyaltyPointsEarned = Math_floor total
             in case send fl (InsertOrder (order_row u cartItems)) w of
                  (Some orderError, w1) \<Rightarrow>
                    ([ToastError ''Failed to process your order. Please try again.''], w1)
                | (None, w1) \<Rightarrow>
                    (case send fl (UpdateLoyaltyPoints u
                                     (js_add (to_number (of_int (currentPoints w1 u)))
                                             loyaltyPointsEarned)) w1 of
                       (Some profileError, w2) \<Rightarrow>
                         ([ToastError ''Failed to process your order. Please try again.''], w2)
                     | (None, w2) \<Rightarrow>
                         (let w3 = stock_loop fl cartItems w2;
                              w4 = snd (send fl (UpdateCartProducts u []) w3)
                          in ([ToastOrderPlaced loyaltyPointsEarned, Navigate ''/orders''], w4)))))"

section \<open>Cart page\<close>

text \<open>\<open>fetchCart\<close>, run when the cart page loads.\<close>

definition fetchCart :: "world \<Rightarrow> ui_event list \<times> user_id option \<times> cart_item list" where
  "fetchCart w =
     (case auth_user w of
        None \<Rightarrow> ([Navigate ''/auth''], None, [])
      | Some u \<Rightarrow>
          ([], Some u, (case tbl_carts w u of Some (Some products) \<Rightarrow> products | _ \<Rightarrow> [])))"

definition updateCartInDatabase ::
  "faults \<Rightarrow> user_id option \<Rightarrow> cart_item list \<Rightarrow> world \<Rightarrow> ui_event list \<times> world" where
  "updateCartInDatabase fl user items w =
     (case user of
        None \<Rightarrow> ([], w)
      | Some u \<Rightarrow>
          (case send fl (UpsertCart u items) w of
             (Some e, w1) \<Rightarrow> ([ToastError ''Failed to update cart''], w1)
           | (None, w1) \<Rightarrow> ([], w1)))"

text \<open>
  \<open>updateQuantity\<close> and \<open>removeItem\<close> return the page's new \<open>cartItems\<close>, what they
  show, and the world they leave.
\<close>

definition updateQuantity ::
  "faults \<Rightarrow> user_id option \<Rightarrow> cart_item list \<Rightarrow> product_id \<Rightarrow> int \<Rightarrow> world
     \<Rightarrow> cart_item list \<times> ui_event list \<times> world" where
  "updateQuantity fl user cartItems itemId newQuantity w =
     (if newQuantity < 1 then (cartItems, [], w)
      else
        (let updatedItems =
               map (\<lambda>item. if item_id item = itemId
                            then item\<lparr>item_quantity := newQuantity\<rparr> else item) cartItems
         in case updateCartInDatabase fl user updatedItems w of
              (evs, w1) \<Rightarrow> (updatedItems, evs, w1)))"

definition removeItem ::
  "faults \<Rightarrow> user_id option \<Rightarrow> cart_item list \<Rightarrow> product_id \<Rightarrow> world
     \<Rightarrow> cart_item list \<times> ui_event list \<times> world" where
  "removeItem fl user cartItems itemId w =
     (let updatedItems = filter (\<lambda>item. item_id item \<noteq> itemId) cartItems
      in case updateCartInDatabase fl user updatedItems w of
           (evs, w1) \<Rightarrow> (updatedItems, evs @ [ToastItemRemoved], w1))"

section \<open>Product card, product detail and wishlist pages\<close>

text \<open>
  What \<open>handleAddToCart\<close> does once it has a user: fetch the user's cart or create it,
  compute \<open>updatedProducts\<close>, write them back. The wishlist page's \<open>addToCart\<close> has the
  same body.
\<close>

definition addToCartAs ::
  "faults \<Rightarrow> user_id \<Rightarrow> product \<Rightarrow> world \<Rightarrow> ui_event list \<times> world" where
  "addToCartAs fl u p w =
     (case (case tbl_carts w u of
              Some cart_products \<Rightarrow> (Inr cart_products, w)
            | None \<Rightarrow>
                (case send fl (InsertCart u) w of
                   (Some createError, w1) \<Rightarrow> (Inl createError, w1)
                 | (None, w1) \<Rightarrow> (Inr (Some []), w1))) of
        (Inl createError, w1) \<Rightarrow> ([ToastError ''Failed to add item to cart''], w1)
      | (Inr cart_products, w1) \<Rightarrow>
          (let existingProducts = (case cart_products of Some xs \<Rightarrow> xs | None \<Rightarrow> [])
           in case send fl (UpdateCartProducts u (updatedProducts existingProducts p)) w1 of
                (Some updateError, w2) \<Rightarrow> ([ToastError ''Failed to add item to cart''], w2)
              | (None, w2) \<Rightarrow> ([ToastAddedToCart (prod_name p)], w2)))"

definition handleAddToCart :: "faults \<Rightarrow> product \<Rightarrow> world \<Rightarrow> ui_event list \<times> world" where
  "handleAddToCart fl p w =
     (case auth_user w of
        None \<Rightarrow> ([ToastAuthRequired ''Please sign in to add items to cart''], w)
      | Some u \<Rightarrow> addToCartAs fl u p w)"

text \<open>
  \<open>fetchWishlist\<close>, run when the wishlist page loads: it fills the page's \<open>user\<close> and
  \<open>wishlistItems\<close> (the user's rows), or navigates to the sign-in page.
\<close>

definition fetchWishlist ::
  "world \<Rightarrow> ui_event list \<times> user_id option \<times> (user_id \<times> product_id) list" where
  "fetchWishlist w =
     (case auth_user w of
        None \<Rightarrow> ([Navigate ''/auth''], None, [])
      | Some u \<Rightarrow> ([], Some u, filter (\<lambda>row. fst row = u) (tbl_wishlists w)))"

text \<open>
  The wishlist page's \<open>removeFromWishlist\<close>: it deletes the row with the given identifier
  and does not look at the user. It returns the page's new \<open>wishlistItems\<close>, what it
  shows, and the world it leaves.
\<close>

definition removeFromWishlist ::
  "faults \<Rightarrow> (user_id \<times> product_id) list \<Rightarrow> user_id \<times> product_id \<Rightarrow> world
     \<Rightarrow> (user_id \<times> product_id) list \<times> ui_event list \<times> world" where
  "removeFromWishlist fl wishlistItems wishlistId w =
     (case send fl (DeleteWishlist wishlistId) w of
        (Some error, w1) \<Rightarrow>
          (wishlistItems, [ToastError ''Failed to remove item from wishlist''], w1)
      | (None, w1) \<Rightarrow>
          (filter (\<lambda>item. item \<noteq> wishlistId) wishlistItems, [ToastRemovedFromWishlist], w1))"

text \<open>The wishlist page's \<open>addToCart\<close>, on the page's \<open>user\<close>.\<close>

definition addToCart ::
  "faults \<Rightarrow> user_id option \<Rightarrow> product \<Rightarrow> world \<Rightarrow> ui_event list \<times> world" where
  "addToCart fl user p w =
     (case user of
        None \<Rightarrow> ([], w)
      | Some u \<Rightarrow> addToCartAs fl u p w)"

definition handleAddToWishlist :: "faults \<Rightarrow> product \<Rightarrow> world \<Rightarrow> ui_event list \<times> world" where
  "handleAddToWishlist fl p w =
     (case auth_user w of
        None \<Rightarrow> ([ToastAuthRequired ''Please sign in to add items to wishlist''], w)
      | Some u \<Rightarrow>
          (case send fl (InsertWishlist u (prod_id p)) w of
             (Some error, w1) \<Rightarrow>
               if error_code error \<noteq> ''23505''
               then ([ToastError ''Failed to add item to wishlist''], w1)
               else ([ToastAddedToWishlist (prod_name p)], w1)
           | (None, w1) \<Rightarrow> ([ToastAddedToWishlist (prod_name p)], w1)))"

text \<open>
  \<open>String.prototype.trim\<close> removes the leading and trailing code units that are white
  space or line terminators: tab, line feed, vertical tab, form feed, carriage return,
  space, no-break space, the byte order mark, the line and paragraph separators and the
  other space separators of Unicode, all of which are single code units.
\<close>

definition is_space :: "16 word \<Rightarrow> bool" where
  "is_space c =
     (c \<in> {0x0009, 0x000A, 0x000B, 0x000C, 0x000D, 0x0020, 0x00A0, 0x1680, 0x2028, 0x2029,
            0x202F, 0x205F, 0x3000, 0xFEFF}
      \<or> (0x2000 \<le> c \<and> c \<le> 0x200A))"

definition trim :: "16 word list \<Rightarrow> 16 word list" where
  "trim s = rev (dropWhile is_space (rev (dropWhile is_space s)))"

text \<open>
  \<open>handleSubmitReview\<close> of the product detail page for product \<open>pid\<close>, up to the
  reset of the form and the reload of the reviews after a success.
\<close>

definition handleSubmitReview ::
  "faults \<Rightarrow> product_id \<Rightarrow> int \<Rightarrow> 16 word list \<Rightarrow> world \<Rightarrow> ui_event list \<times> world" where
  "handleSubmitReview fl pid newRating newComment w =
     (case auth_user w of
        None \<Rightarrow> ([ToastAuthRequired ''Please sign in to submit a review''], w)
      | Some u \<Rightarrow>
          (case send fl (InsertReview \<lparr>review_product_id = pid, review_user_id = u,
                           rating = newRating, comment = trim newComment\<rparr>) w of
             (Some error, w1) \<Rightarrow> ([ToastError ''Failed to submit review''], w1)
           | (None, w1) \<Rightarrow> ([ToastReviewSubmitted], w1)))"

section \<open>Observations and sample data\<close>

text \<open>The table a request writes and the key it filters or inserts by.\<close>

datatype table = Orders | Profiles | Products | Inventory | Carts | Wishlists | Reviews

fun written :: "request \<Rightarrow> table \<times> string" where
  "written (InsertOrder ord) = (Orders, order_user_id ord)"
| "written (UpdateLoyaltyPoints u n) = (Profiles, u)"
| "written (UpdateProductStock pid n) = (Products, pid)"
| "written (UpdateInventoryStock pid n) = (Inventory, pid)"
| "written (InsertCart u) = (Carts, u)"
| "written (UpdateCartProducts u items) = (Carts, u)"
| "written (UpsertCart u items) = (Carts, u)"
| "written (InsertWishlist u pid) = (Wishlists, u)"
| "written (DeleteWishlist wid) = (Wishlists, fst wid)"
| "written (InsertReview r) = (Reviews, review_user_id r)"

text \<open>What counts as asking the user to sign in: the toast, or going to the sign-in page.\<close>

fun is_sign_in_prompt :: "ui_event \<Rightarrow> bool" where
  "is_sign_in_prompt (ToastAuthRequired d) = True"
| "is_sign_in_prompt (Navigate path) = (path = ''/auth'')"
| "is_sign_in_prompt _ = False"

text \<open>The store refusing every write to one table (connection failure).\<close>

definition failing :: "table \<Rightarrow> faults" where
  "failing t = (\<lambda>req. if fst (written req) = t then Some \<lparr>error_code = ''08006''\<rparr> else None)"

text \<open>
  A small shop: two products in stock, one customer with a cart of both and the mug on
  her wishlist; a hundred packets of tea at 4.35; a cup at 4 and a drop at 0.9999999999999999; an item whose product is gone; the shop
  with more pens; the shop after the customer's session has ended.
\<close>

definition mug :: cart_item where
  "mug = \<lparr>item_id = ''mug'', item_name = ''Mug'', item_price = 10, item_image = None,
          item_quantity = 2\<rparr>"

definition pen :: cart_item where
  "pen = \<lparr>item_id = ''pen'', item_name = ''Pen'', item_price = 1999 / 100,
          item_image = None, item_quantity = 5\<rparr>"

definition pen_product :: product where
  "pen_product = \<lparr>prod_id = ''pen'', prod_name = ''Pen'', prod_price = 1999 / 100,
                  prod_image = None, prod_stock = 3\<rparr>"

definition shop :: world where
  "shop = \<lparr>auth_user = Some ''alice'', tbl_orders = [],
           tbl_profiles = [''alice'' \<mapsto> \<lparr>loyalty_points = Some 7\<rparr>],
           tbl_products = [''mug'' \<mapsto> 5, ''pen'' \<mapsto> 3],
           tbl_inventory = [''mug'' \<mapsto> 5, ''pen'' \<mapsto> 3],
           tbl_carts = [''alice'' \<mapsto> Some [mug, pen]],
           tbl_wishlists = [(''alice'', ''mug'')], tbl_reviews = [], sent = []\<rparr>"

definition mug_product :: product where
  "mug_product = \<lparr>prod_id = ''mug'', prod_name = ''Mug'', prod_price = 10,
                  prod_image = None, prod_stock = 5\<rparr>"




definition ghost :: cart_item where
  "ghost = \<lparr>item_id = ''ghost'', item_name = ''Ghost'', item_price = 7 / 2, item_image = None,
            item_quantity = 1\<rparr>"

definition shop_restocked :: world where
  "shop_restocked = shop\<lparr>tbl_products := [''mug'' \<mapsto> 5, ''pen'' \<mapsto> 9]\<rparr>"

definition signed_out :: world where
  "signed_out = shop\<lparr>auth_user := None\<rparr>"

section \<open>Rounding to doubles\<close>

text \<open>
  The exponent brackets its argument, rounding moves a value by at most half the spacing,
  and whole numbers up to \<open>2 ^ 53\<close> are doubles. Some well-known values follow.
\<close>

lemma floor_rat_numeral:
  "\<lfloor>numeral a / numeral b :: rat\<rfloor> = numeral a div numeral b"
  using floor_divide_of_int_eq [of "numeral a" "numeral b", where ?'a = rat] by simp

lemma ilog2_numeral:
  "ilog2 0 = 0" "ilog2 1 = 0" "ilog2 (Suc 0) = 0"
  "ilog2 (numeral (Num.Bit0 k)) = Suc (ilog2 (numeral k))"
  "ilog2 (numeral (Num.Bit1 k)) = Suc (ilog2 (numeral k))"
proof -
  show "ilog2 0 = 0" "ilog2 1 = 0" "ilog2 (Suc 0) = 0" by (simp_all add: ilog2.simps)
  have "numeral (Num.Bit0 k) div (2::nat) = numeral k" by simp
  moreover have "\<not> numeral (Num.Bit0 k) < (2::nat)"
    by simp
  ultimately show "ilog2 (numeral (Num.Bit0 k)) = Suc (ilog2 (numeral k))"
    by (subst ilog2.simps) simp
  have "numeral (Num.Bit1 k) div (2::nat) = numeral k" by simp
  moreover have "\<not> numeral (Num.Bit1 k) < (2::nat)"
    by simp
  ultimately show "ilog2 (numeral (Num.Bit1 k)) = Suc (ilog2 (numeral k))"
    by (subst ilog2.simps) simp
qed

lemma ceiling_rat_numeral:
  "\<lceil>numeral a / numeral b :: rat\<rceil> = - ((- numeral a) div numeral b)"
  using ceiling_divide_eq_div [of "numeral a" "numeral b", where ?'a = rat] by simp

lemma ilog2_bounds: "0 < n \<Longrightarrow> 2 ^ ilog2 n \<le> n \<and> n < 2 ^ Suc (ilog2 n)"
proof (induction n rule: ilog2.induct)
  case (1 n)
  show ?case
  proof (cases "n < 2")
    case True
    with "1.prems" have "n = 1" by simp
    then show ?thesis by (simp add: ilog2.simps)
  next
    case False
    then have pos: "0 < n div 2" by simp
    from "1.IH" [OF False pos]
    have ih: "2 ^ ilog2 (n div 2) \<le> n div 2" "n div 2 < 2 ^ Suc (ilog2 (n div 2))" by simp_all
    have eq: "ilog2 n = Suc (ilog2 (n div 2))"
      using False by (subst ilog2.simps) simp
    from ih show ?thesis unfolding eq by auto
  qed
qed

lemma pow2_add: "pow2 (a + b) = pow2 a * pow2 b"
proof -
  have "pow2 e = 2 powi e" for e
    by (simp add: pow2_def power_int_def power_one_over)
  then show ?thesis by (simp add: power_int_add)
qed

lemma pow2_pos: "0 < pow2 e"
  by (simp add: pow2_def)

lemma pow2_nat: "pow2 (int n) = 2 ^ n"
  by (simp add: pow2_def)

lemma exponent_bounds:
  assumes "0 < a"
  shows "pow2 (exponent a) \<le> a \<and> a < pow2 (exponent a + 1)"
proof (cases "1 \<le> a")
  case True
  let ?n = "nat \<lfloor>a\<rfloor>"
  from True have n: "0 < ?n" by simp
  have e: "exponent a = int (ilog2 ?n)" using True by (simp add: exponent_def)
  from ilog2_bounds [OF n] have b: "2 ^ ilog2 ?n \<le> ?n" "?n < 2 ^ Suc (ilog2 ?n)" by simp_all
  have fl: "of_nat ?n \<le> a" "a < of_nat ?n + 1"
    using True by (simp_all add: of_nat_nat) linarith
  have "(2::rat) ^ ilog2 ?n \<le> of_nat ?n"
    using b(1) by (metis of_nat_le_iff of_nat_numeral of_nat_power)
  from this fl(1) have "(2::rat) ^ ilog2 ?n \<le> a" by (rule order_trans)
  then have lo: "pow2 (exponent a) \<le> a" by (simp only: e pow2_nat)
  have "?n + 1 \<le> 2 ^ Suc (ilog2 ?n)" using b(2) by simp
  then have "(of_nat (?n + 1) :: rat) \<le> of_nat (2 ^ Suc (ilog2 ?n))"
    by (simp only: of_nat_le_iff)
  then have "(of_nat ?n :: rat) + 1 \<le> 2 ^ Suc (ilog2 ?n)" by simp
  with fl(2) have "a < 2 ^ Suc (ilog2 ?n)" by linarith
  moreover have "pow2 (exponent a + 1) = 2 ^ Suc (ilog2 ?n)"
    by (simp add: e pow2_def nat_add_distrib)
  ultimately show ?thesis using lo by simp
next
  case False
  let ?N = "nat \<lceil>1 / a\<rceil>"
  from False assms have big: "1 < 1 / a" by simp
  then have "of_int 1 < 1 / a" by simp
  then have "1 < \<lceil>1 / a\<rceil>" by (simp only: less_ceiling_iff)
  then have N2: "2 \<le> ?N" by linarith
  let ?m = "Suc (ilog2 (?N - 1))"
  have e: "exponent a = - int ?m" using False by (simp add: exponent_def)
  have pos: "0 < ?N - 1" using N2 by linarith
  from ilog2_bounds [OF pos]
  have b: "2 ^ ilog2 (?N - 1) \<le> ?N - 1" "?N - 1 < 2 ^ ?m" by simp_all
  have Nint: "(of_nat ?N :: rat) = of_int \<lceil>1 / a\<rceil>"
    using N2 by simp
  have c1: "1 / a \<le> of_nat ?N"
    unfolding Nint by (rule le_of_int_ceiling)
  have c2: "of_nat ?N - 1 < 1 / a"
    unfolding Nint by linarith
  have "?N \<le> 2 ^ ?m" using b(2) N2 by linarith
  then have "(of_nat ?N :: rat) \<le> of_nat (2 ^ ?m)" by (simp only: of_nat_le_iff)
  then have "(of_nat ?N :: rat) \<le> 2 ^ ?m" by simp
  with c1 have up: "1 / a \<le> 2 ^ ?m" by linarith
  have "2 ^ ilog2 (?N - 1) + 1 \<le> ?N" using b(1) N2 by linarith
  then have "(of_nat (2 ^ ilog2 (?N - 1) + 1) :: rat) \<le> of_nat ?N" by (simp only: of_nat_le_iff)
  then have "(2::rat) ^ ilog2 (?N - 1) \<le> of_nat ?N - 1" by simp
  with c2 have dn: "2 ^ ilog2 (?N - 1) < 1 / a" by linarith
  have p1: "pow2 (exponent a) = 1 / 2 ^ ?m"
    by (simp add: e pow2_def nat_add_distrib)
  have p2: "pow2 (exponent a + 1) = 1 / 2 ^ ilog2 (?N - 1)"
    by (simp add: e pow2_def nat_add_distrib)
  have lo: "1 / 2 ^ ?m \<le> a"
    using up assms by (simp add: field_simps)
  have hi: "a < 1 / 2 ^ ilog2 (?N - 1)"
    using dn assms by (simp add: field_simps)
  show ?thesis unfolding p1 p2 using lo hi by simp
qed

lemma floor_rat_one:
  "\<lfloor>1 / numeral b :: rat\<rfloor> = 1 div numeral b"
  using floor_divide_of_int_eq [of 1 "numeral b", where ?'a = rat] by simp

lemma ceiling_rat_one:
  "\<lceil>1 / numeral b :: rat\<rceil> = - ((- 1) div numeral b)"
  using ceiling_divide_eq_div [of 1 "numeral b", where ?'a = rat] by simp

lemmas number_eval =
  to_number_def nearest_def ulp_def exponent_def pow2_def round_half_even_def ilog2_numeral
  floor_rat_numeral ceiling_rat_numeral floor_rat_one ceiling_rat_one

lemma round_half_even_of_int: "round_half_even (of_int j) = j"
  by (simp add: round_half_even_def)

lemma round_half_even_error: "\<bar>q - of_int (round_half_even q)\<bar> \<le> 1 / 2"
proof -
  have "of_int \<lfloor>q\<rfloor> \<le> q" "q < of_int \<lfloor>q\<rfloor> + 1" by linarith+
  then show ?thesis
    by (auto simp: round_half_even_def abs_le_iff)
qed

lemma ulp_pos: "0 < ulp a"
  by (simp add: ulp_def pow2_pos)

lemma nearest_error:
  "\<bar>a - nearest a\<bar> \<le> ulp a / 2"
proof -
  have "a - nearest a = (a / ulp a - of_int (round_half_even (a / ulp a))) * ulp a"
    using ulp_pos [of a] by (simp add: nearest_def left_diff_distrib)
  then have "\<bar>a - nearest a\<bar> = \<bar>a / ulp a - of_int (round_half_even (a / ulp a))\<bar> * ulp a"
    using ulp_pos [of a] by (simp only: abs_mult abs_of_pos)
  also have "\<dots> \<le> (1 / 2) * ulp a"
    using round_half_even_error [of "a / ulp a"] ulp_pos [of a]
    by (intro mult_right_mono) simp_all
  finally show ?thesis by simp
qed

lemma nearest_exact:
  assumes "a / ulp a = of_int j"
  shows "nearest a = a"
proof -
  have "nearest a = of_int j * ulp a"
    by (simp add: nearest_def assms round_half_even_of_int)
  also have "\<dots> = a / ulp a * ulp a" by (simp add: assms)
  also have "\<dots> = a" using ulp_pos [of a] by simp
  finally show ?thesis .
qed

lemma pow2_mono: "a \<le> b \<Longrightarrow> pow2 a \<le> pow2 b"
proof -
  assume "a \<le> b"
  then have "pow2 b = pow2 a * pow2 (b - a)"
    by (simp add: pow2_add [symmetric])
  moreover have "1 \<le> pow2 (b - a)"
    using \<open>a \<le> b\<close> by (simp add: pow2_def)
  ultimately show ?thesis using pow2_pos [of a] by simp
qed

lemma exponent_nonneg: "1 \<le> a \<Longrightarrow> 0 \<le> exponent a"
  by (simp add: exponent_def)

lemma nearest_of_int:
  assumes "0 < k" and "k \<le> 2 ^ 53"
  shows "nearest (of_int k) = of_int k"
proof -
  let ?a = "of_int k :: rat"
  let ?e = "exponent ?a"
  have a1: "1 \<le> ?a" using assms(1) by simp
  have e0: "0 \<le> ?e" using a1 by (rule exponent_nonneg)
  have apos: "0 < ?a" using assms(1) by simp
  from exponent_bounds [OF apos] have lo: "pow2 ?e \<le> ?a" and hi: "?a < pow2 (?e + 1)"
    by simp_all
  have a53: "?a \<le> pow2 53"
  proof -
    have "(of_int k :: rat) \<le> of_int (2 ^ 53)" using assms(2) by (simp only: of_int_le_iff)
    then show ?thesis by (simp add: pow2_def)
  qed
  have e53: "?e \<le> 53"
  proof (rule ccontr)
    assume "\<not> ?e \<le> 53"
    then have "54 \<le> ?e" by simp
    then have "pow2 54 \<le> pow2 ?e" by (rule pow2_mono)
    with lo a53 have "pow2 54 \<le> pow2 53" by linarith
    then show False by (simp add: pow2_def)
  qed
  have u: "ulp ?a = pow2 (?e - 52)"
    using e0 by (simp add: ulp_def max_def)
  show ?thesis
  proof (cases "?e \<le> 52")
    case True
    then have "pow2 (?e - 52) = 1 / 2 ^ nat (52 - ?e)"
      by (cases "?e = 52") (simp_all add: pow2_def)
    then have "?a / ulp ?a = of_int (k * 2 ^ nat (52 - ?e))"
      by (simp add: u)
    then show ?thesis by (rule nearest_exact)
  next
    case False
    with e53 have e: "?e = 53" by simp
    from lo a53 have "?a = pow2 53" unfolding e by simp
    then have ak: "?a = 2 ^ 53" by (simp add: pow2_def)
    have "ulp ?a = 2" by (simp add: u e pow2_def)
    then have "?a / ulp ?a = of_int (2 ^ 52)"
      by (simp add: ak)
    then show ?thesis by (rule nearest_exact)
  qed
qed

lemma to_number_of_int:
  assumes "\<bar>k\<bar> \<le> 2 ^ 53"
  shows "to_number (of_int k) = Finite (of_int k)"
proof (cases "k = 0")
  case True
  then show ?thesis by (simp add: to_number_def)
next
  case False
  then have pos: "0 < \<bar>k\<bar>" by simp
  have abs: "\<bar>of_int k :: rat\<bar> = of_int \<bar>k\<bar>" by simp
  have n: "nearest \<bar>of_int k :: rat\<bar> = of_int \<bar>k\<bar>"
    unfolding abs by (rule nearest_of_int [OF pos assms])
  have "(of_int \<bar>k\<bar> :: rat) \<le> of_int (2 ^ 53)" using assms by (simp only: of_int_le_iff)
  then have small: "\<not> pow2 1024 \<le> (of_int \<bar>k\<bar> :: rat)"
    by (simp add: pow2_def)
  show ?thesis
  proof (cases "0 < k")
    case True
    with n small show ?thesis by (simp add: to_number_def)
  next
    case neg: False
    with False have k: "k < 0" by simp
    then have "\<bar>of_int k :: rat\<bar> = - of_int k" "\<bar>k\<bar> = - k" by simp_all
    with n small have "nearest (- of_int k :: rat) = - of_int k"
      "\<not> pow2 1024 \<le> nearest (- of_int k :: rat)" by simp_all
    then show ?thesis using k by (simp add: to_number_def)
  qed
qed

lemma double_tenth: "to_number (1 / 10) = Finite (3602879701896397 / 36028797018963968)"
  by (simp add: number_eval)

lemma double_sum:
  "js_add (to_number (1 / 10)) (to_number (2 / 10)) = Finite (1351079888211149 / 4503599627370496)"
  by (simp add: number_eval)

lemma double_overflow: "to_number (2 ^ 1024) = PosInf"
  by (simp add: number_eval)

lemma double_underflow: "to_number (1 / 2 ^ 1076) = Finite 0"
  by (simp add: number_eval)

lemma double_smallest: "to_number (1 / 2 ^ 1074) = Finite (1 / 2 ^ 1074)"
  by (simp add: number_eval)

lemma double_tie: "to_number (2 ^ 53 + 1) = Finite (2 ^ 53) \<and> to_number (2 ^ 53 + 3) = Finite (2 ^ 53 + 4)"
  by (simp add: number_eval)

section \<open>The cart merge\<close>

lemma findIndex_ge: "- 1 \<le> findIndex P xs"
  by (induction xs) (auto simp: Let_def)

lemma findIndex_none: "(findIndex P xs < 0) = (\<forall>x \<in> set xs. \<not> P x)"
proof (induction xs)
  case Nil
  show ?case by simp
next
  case (Cons x xs)
  have "- 1 \<le> findIndex P xs" by (rule findIndex_ge)
  with Cons show ?case by (auto simp: Let_def)
qed

lemma findIndex_first:
  "0 \<le> findIndex P xs \<Longrightarrow>
     nat (findIndex P xs) < length xs \<and> P (xs ! nat (findIndex P xs)) \<and>
     (\<forall>j < nat (findIndex P xs). \<not> P (xs ! j))"
proof (induction xs)
  case Nil
  then show ?case by simp
next
  case (Cons x xs)
  show ?case
  proof (cases "P x")
    case True
    then show ?thesis by simp
  next
    case False
    with Cons.prems have r: "0 \<le> findIndex P xs"
      by (simp add: Let_def split: if_splits)
    then have fi: "findIndex P (x # xs) = findIndex P xs + 1"
      using False by (simp add: Let_def)
    have n: "nat (findIndex P xs + 1) = Suc (nat (findIndex P xs))"
      using r by simp
    from Cons.IH [OF r] show ?thesis
      unfolding fi n using False by (auto simp: nth_Cons split: nat.splits)
  qed
qed

text \<open>
  C3: when the cart already holds an item with the product's identifier, the merge returns
  the list with the first such item's quantity raised by one, every other position as it
  was and the order kept; when no item has that identifier, it returns the list with the
  new item (id, name, price, image, quantity 1) appended at the end.
\<close>

theorem updatedProducts_merge:
  "((\<exists>item \<in> set existingProducts. item_id item = prod_id p) \<longrightarrow>
      (\<exists>i < length existingProducts.
          item_id (existingProducts ! i) = prod_id p \<and>
          (\<forall>j < i. item_id (existingProducts ! j) \<noteq> prod_id p) \<and>
          updatedProducts existingProducts p =
            existingProducts[i := (existingProducts ! i)
               \<lparr>item_quantity := item_quantity (existingProducts ! i) + 1\<rparr>]))
   \<and> ((\<forall>item \<in> set existingProducts. item_id item \<noteq> prod_id p) \<longrightarrow>
        updatedProducts existingProducts p =
          existingProducts @
            [\<lparr>item_id = prod_id p, item_name = prod_name p, item_price = prod_price p,
              item_image = prod_image p, item_quantity = 1\<rparr>])"
proof (intro conjI impI)
  assume "\<exists>item \<in> set existingProducts. item_id item = prod_id p"
  then have "\<not> findIndex (\<lambda>item. item_id item = prod_id p) existingProducts < 0"
    by (simp add: findIndex_none)
  then have ge: "0 \<le> findIndex (\<lambda>item. item_id item = prod_id p) existingProducts"
    by simp
  from findIndex_first [OF ge] ge
  show "\<exists>i < length existingProducts.
          item_id (existingProducts ! i) = prod_id p \<and>
          (\<forall>j < i. item_id (existingProducts ! j) \<noteq> prod_id p) \<and>
          updatedProducts existingProducts p =
            existingProducts[i := (existingProducts ! i)
               \<lparr>item_quantity := item_quantity (existingProducts ! i) + 1\<rparr>]"
    by (intro exI [of _ "nat (findIndex (\<lambda>item. item_id item = prod_id p) existingProducts)"])
       (simp add: updatedProducts_def Let_def)
next
  assume "\<forall>item \<in> set existingProducts. item_id item \<noteq> prod_id p"
  then have "findIndex (\<lambda>item. item_id item = prod_id p) existingProducts < 0"
    by (simp add: findIndex_none)
  then show "updatedProducts existingProducts p =
          existingProducts @
            [\<lparr>item_id = prod_id p, item_name = prod_name p, item_price = prod_price p,
              item_image = prod_image p, item_quantity = 1\<rparr>]"
    by (simp add: updatedProducts_def Let_def)
qed

theorem updatedProducts_merge_witness:
  "updatedProducts [mug, pen] pen_product = [mug, pen\<lparr>item_quantity := 6\<rparr>]
   \<and> updatedProducts [mug] pen_product = [mug, pen\<lparr>item_quantity := 1\<rparr>]"
  using updatedProducts_merge [of "[mug, pen]" pen_product]
        updatedProducts_merge [of "[mug]" pen_product]
  by (auto simp: less_Suc_eq mug_def pen_def pen_product_def)

section \<open>The aggregate rating\<close>

lemma foldl_add_shift:
  "foldl (\<lambda>acc x. acc + f x) (a :: 'a :: comm_monoid_add) xs = a + sum_list (map f xs)"
  by (induction xs arbitrary: a) (simp_all add: add.assoc)

text \<open>
  C5: \<open>averageRating\<close> of the empty sequence is 0; of a non-empty sequence it is the sum of
  the ratings divided by their number; and it always is a number: the division is never by
  zero.
\<close>

theorem averageRating_mean:
  "averageRating [] = Some 0
   \<and> (rs \<noteq> [] \<longrightarrow>
        averageRating rs = Some (of_int (sum_list (map rating rs)) / of_nat (length rs)))
   \<and> averageRating rs \<noteq> None"
  by (simp add: averageRating_def js_divide_def foldl_add_shift)

theorem averageRating_mean_witness:
  "averageRating
     [\<lparr>review_product_id = ''mug'', review_user_id = ''alice'', rating = 4, comment = []\<rparr>,
      \<lparr>review_product_id = ''mug'', review_user_id = ''bob'', rating = 5, comment = []\<rparr>,
      \<lparr>review_product_id = ''mug'', review_user_id = ''carol'', rating = 3, comment = []\<rparr>]
   = Some 4"
  using averageRating_mean [of
     "[\<lparr>review_product_id = ''mug'', review_user_id = ''alice'', rating = 4, comment = []\<rparr>,
       \<lparr>review_product_id = ''mug'', review_user_id = ''bob'', rating = 5, comment = []\<rparr>,
       \<lparr>review_product_id = ''mug'', review_user_id = ''carol'', rating = 3, comment = []\<rparr>]"]
  by simp

section \<open>Changing a quantity\<close>

text \<open>
  C7: \<open>updateQuantity\<close> with a new quantity below 1 changes nothing: the item list is
  returned as it was, nothing is shown and the world (its tables and the requests sent)
  is the same. With a new quantity of at least 1 the list keeps its length, every item
  with the given identifier gets the new quantity and every other item is unchanged.
\<close>

theorem updateQuantity_floor:
  "(newQuantity < 1 \<longrightarrow>
      updateQuantity fl user cartItems itemId newQuantity w = (cartItems, [], w))
   \<and> (1 \<le> newQuantity \<longrightarrow>
        length (fst (updateQuantity fl user cartItems itemId newQuantity w)) = length cartItems
        \<and> (\<forall>i < length cartItems.
              fst (updateQuantity fl user cartItems itemId newQuantity w) ! i =
                (if item_id (cartItems ! i) = itemId
                 then (cartItems ! i)\<lparr>item_quantity := newQuantity\<rparr>
                 else cartItems ! i)))"
  by (simp add: updateQuantity_def Let_def split: prod.splits)

theorem updateQuantity_floor_witness:
  "updateQuantity no_faults (Some ''alice'') [mug, pen] ''pen'' 0 shop = ([mug, pen], [], shop)
   \<and> fst (updateQuantity no_faults (Some ''alice'') [mug, pen] ''pen'' 4 shop) ! 0 = mug
   \<and> fst (updateQuantity no_faults (Some ''alice'') [mug, pen] ''pen'' 4 shop) ! 1 =
       pen\<lparr>item_quantity := 4\<rparr>"
  using updateQuantity_floor [of 0 no_faults "Some ''alice''" "[mug, pen]" "''pen''" shop]
        updateQuantity_floor [of 4 no_faults "Some ''alice''" "[mug, pen]" "''pen''" shop]
  by (auto simp: mug_def pen_def)

section \<open>Requests and their frames\<close>

lemma sent_send: "sent (snd (send fl req w)) = sent w @ [req]"
  by (simp add: send_def split: option.splits)

lemma fst_send: "fst (send fl req w) = reply fl w req"
  by (simp add: send_def split: option.splits)

lemma send_order_frame:
  "tbl_products (snd (send fl (InsertOrder ord) w)) = tbl_products w"
  "tbl_inventory (snd (send fl (InsertOrder ord) w)) = tbl_inventory w"
  "tbl_profiles (snd (send fl (InsertOrder ord) w)) = tbl_profiles w"
  "tbl_carts (snd (send fl (InsertOrder ord) w)) = tbl_carts w"
  by (simp_all add: send_def split: option.splits)

lemma send_points_frame:
  "tbl_products (snd (send fl (UpdateLoyaltyPoints u pts) w)) = tbl_products w"
  "tbl_inventory (snd (send fl (UpdateLoyaltyPoints u pts) w)) = tbl_inventory w"
  "tbl_orders (snd (send fl (UpdateLoyaltyPoints u pts) w)) = tbl_orders w"
  "tbl_carts (snd (send fl (UpdateLoyaltyPoints u pts) w)) = tbl_carts w"
  by (simp_all add: send_def split: option.splits)

lemma send_stock_frame:
  "tbl_inventory (snd (send fl (UpdateProductStock pid n) w)) = tbl_inventory w"
  "tbl_orders (snd (send fl (UpdateProductStock pid n) w)) = tbl_orders w"
  "tbl_profiles (snd (send fl (UpdateProductStock pid n) w)) = tbl_profiles w"
  "tbl_carts (snd (send fl (UpdateProductStock pid n) w)) = tbl_carts w"
  by (simp_all add: send_def split: option.splits)

lemma send_inventory_frame:
  "tbl_products (snd (send fl (UpdateInventoryStock pid n) w)) = tbl_products w"
  "tbl_orders (snd (send fl (UpdateInventoryStock pid n) w)) = tbl_orders w"
  "tbl_profiles (snd (send fl (UpdateInventoryStock pid n) w)) = tbl_profiles w"
  "tbl_carts (snd (send fl (UpdateInventoryStock pid n) w)) = tbl_carts w"
  by (simp_all add: send_def split: option.splits)

lemma send_cart_frame:
  "tbl_products (snd (send fl (UpdateCartProducts u items) w)) = tbl_products w"
  "tbl_inventory (snd (send fl (UpdateCartProducts u items) w)) = tbl_inventory w"
  "tbl_orders (snd (send fl (UpdateCartProducts u items) w)) = tbl_orders w"
  "tbl_profiles (snd (send fl (UpdateCartProducts u items) w)) = tbl_profiles w"
  by (simp_all add: send_def split: option.splits)

lemma send_stock_products:
  "tbl_products (snd (send fl (UpdateProductStock pid n) w)) =
     (if reply fl w (UpdateProductStock pid n) = None \<and> tbl_products w pid \<noteq> None
      then (tbl_products w)(pid \<mapsto> n) else tbl_products w)"
  by (auto simp: send_def split: option.splits)

lemma send_inventory_inventory:
  "tbl_inventory (snd (send fl (UpdateInventoryStock pid n) w)) =
     (if reply fl w (UpdateInventoryStock pid n) = None \<and> tbl_inventory w pid \<noteq> None
      then (tbl_inventory w)(pid \<mapsto> n) else tbl_inventory w)"
  by (auto simp: send_def split: option.splits)

lemma send_order_orders:
  "tbl_orders (snd (send fl (InsertOrder ord) w)) =
     (if fl (InsertOrder ord) = None then tbl_orders w @ [ord] else tbl_orders w)"
  by (auto simp: send_def reply_def split: option.splits)

lemma send_points_profiles:
  "tbl_profiles (snd (send fl (UpdateLoyaltyPoints u pts) w)) =
     (case tbl_profiles w u of
        None \<Rightarrow> tbl_profiles w
      | Some pr \<Rightarrow> if fl (UpdateLoyaltyPoints u pts) = None
                   then (tbl_profiles w)(u \<mapsto> pr\<lparr>loyalty_points := stored_points pts\<rparr>)
                   else tbl_profiles w)"
  by (auto simp: send_def reply_def split: option.splits)


lemma reply_no_faults:
  "reply no_faults w (UpdateProductStock pid n) = None"
  "reply no_faults w (UpdateInventoryStock pid n) = None"
  "reply no_faults w (InsertOrder ord) = None"
  "reply no_faults w (UpdateLoyaltyPoints u pts) = None"
  "reply no_faults w (UpdateCartProducts u items) = None"
  by (simp_all add: reply_def no_faults_def)

lemma reply_plain:
  "reply fl w (InsertOrder ord) = fl (InsertOrder ord)"
  "reply fl w (UpdateLoyaltyPoints u pts) = fl (UpdateLoyaltyPoints u pts)"
  "reply fl w (UpdateCartProducts u items) = fl (UpdateCartProducts u items)"
  by (simp_all add: reply_def split: option.splits)

lemma stock_loop_frame:
  "tbl_orders (stock_loop fl items w) = tbl_orders w \<and>
   tbl_profiles (stock_loop fl items w) = tbl_profiles w \<and>
   tbl_carts (stock_loop fl items w) = tbl_carts w"
  by (induction items arbitrary: w)
     (simp_all add: Let_def send_stock_frame send_inventory_frame split: option.splits)

lemma stock_loop_products:
  "tbl_products (stock_loop no_faults items w) pid =
     (case tbl_products w pid of
        None \<Rightarrow> None
      | Some stock \<Rightarrow>
          Some (foldl (\<lambda>s item. max 0 (s - item_quantity item)) stock
                  (filter (\<lambda>item. item_id item = pid) items)))"
proof (induction items arbitrary: w)
  case Nil
  show ?case by (simp split: option.splits)
next
  case (Cons item rest)
  show ?case
    by (simp add: Cons.IH Let_def send_stock_products send_inventory_frame reply_no_faults
             split: option.splits)
qed

lemma stock_loop_dom:
  "(tbl_products (stock_loop fl items w) pid = None) = (tbl_products w pid = None)"
proof (induction items arbitrary: w)
  case Nil
  show ?case by simp
next
  case (Cons item rest)
  show ?case
    by (simp add: Cons.IH Let_def send_stock_products send_inventory_frame
             split: option.splits)
qed

lemma stock_loop_missing:
  "tbl_products w pid = None \<Longrightarrow>
     tbl_inventory (stock_loop fl items w) pid = tbl_inventory w pid"
proof (induction items arbitrary: w)
  case Nil
  show ?case by simp
next
  case (Cons item rest)
  show ?case
  proof (cases "tbl_products w (item_id item)")
    case None
    with Cons show ?thesis by simp
  next
    case (Some stock)
    with Cons.prems have ne: "item_id item \<noteq> pid" by auto
    let ?n = "max 0 (stock - item_quantity item)"
    let ?w1 = "snd (send fl (UpdateProductStock (item_id item) ?n) w)"
    let ?w2 = "snd (send fl (UpdateInventoryStock (item_id item) ?n) ?w1)"
    have p2: "tbl_products ?w2 pid = None"
      using Cons.prems ne by (simp add: send_stock_products send_inventory_frame)
    have i2: "tbl_inventory ?w2 pid = tbl_inventory w pid"
      using ne by (simp add: send_inventory_inventory send_stock_frame)
    from Cons.IH [OF p2] i2 Some show ?thesis by (simp add: Let_def)
  qed
qed

lemma stock_loop_sent:
  "\<exists>rs. sent (stock_loop fl items w) = sent w @ rs \<and>
        map written rs =
          concat (map (\<lambda>item. [(Products, item_id item), (Inventory, item_id item)])
                    (filter (\<lambda>item. tbl_products w (item_id item) \<noteq> None) items))"
proof (induction items arbitrary: w)
  case Nil
  show ?case by simp
next
  case (Cons item rest)
  show ?case
  proof (cases "tbl_products w (item_id item)")
    case None
    with Cons.IH [of w] show ?thesis by simp
  next
    case (Some stock)
    let ?n = "max 0 (stock - item_quantity item)"
    let ?w1 = "snd (send fl (UpdateProductStock (item_id item) ?n) w)"
    let ?w2 = "snd (send fl (UpdateInventoryStock (item_id item) ?n) ?w1)"
    have dom2: "\<And>pid. (tbl_products ?w2 pid = None) = (tbl_products w pid = None)"
      by (simp add: send_stock_products send_inventory_frame)
    have s2: "sent ?w2 = sent w @ [UpdateProductStock (item_id item) ?n,
                                   UpdateInventoryStock (item_id item) ?n]"
      by (simp add: sent_send)
    from Cons.IH [of ?w2] obtain rs where
      rs: "sent (stock_loop fl rest ?w2) = sent ?w2 @ rs"
          "map written rs =
             concat (map (\<lambda>item. [(Products, item_id item), (Inventory, item_id item)])
                       (filter (\<lambda>item. tbl_products ?w2 (item_id item) \<noteq> None) rest))"
      by blast
    show ?thesis
      by (rule exI [of _ "[UpdateProductStock (item_id item) ?n,
                           UpdateInventoryStock (item_id item) ?n] @ rs"])
         (simp add: Some Let_def rs s2 dom2)
  qed
qed


lemma getTotalPrice_split:
  "getTotalPrice (pre @ item # post) =
     foldl (\<lambda>total item.
              js_add total (js_mul (to_number (item_price item))
                                   (to_number (of_int (item_quantity item)))))
       (js_add (getTotalPrice pre)
          (js_mul (to_number (item_price item)) (to_number (of_int (item_quantity item)))))
       post"
  by (simp add: getTotalPrice_def)

lemma handleSubmit_placed:
  assumes "cartItems \<noteq> []"
      and "fl (InsertOrder (order_row u cartItems)) = None"
      and "fl (UpdateLoyaltyPoints u (js_add (to_number (of_int (currentPoints w u)))
                                (Math_floor (getTotalPrice cartItems)))) = None"
  shows "handleSubmit fl (Some u) cartItems w =
           ([ToastOrderPlaced (Math_floor (getTotalPrice cartItems)), Navigate ''/orders''],
            snd (send fl (UpdateCartProducts u [])
              (stock_loop fl cartItems
                (snd (send fl (UpdateLoyaltyPoints u
                                 (js_add (to_number (of_int (currentPoints w u)))
                                (Math_floor (getTotalPrice cartItems))))
                  (snd (send fl (InsertOrder (order_row u cartItems)) w)))))))"
proof -
  have c1: "currentPoints (snd (send fl (InsertOrder (order_row u cartItems)) w)) u =
              currentPoints w u"
    by (simp add: currentPoints_def send_order_frame)
  show ?thesis
    using assms by (simp add: handleSubmit_def Let_def split_beta fst_send reply_plain c1)
qed

lemma placed_no_faults:
  "cartItems \<noteq> [] \<Longrightarrow>
     handleSubmit no_faults (Some u) cartItems w =
       ([ToastOrderPlaced (Math_floor (getTotalPrice cartItems)), Navigate ''/orders''],
        snd (send no_faults (UpdateCartProducts u [])
          (stock_loop no_faults cartItems
            (snd (send no_faults (UpdateLoyaltyPoints u
                             (js_add (to_number (of_int (currentPoints w u)))
                                (Math_floor (getTotalPrice cartItems))))
              (snd (send no_faults (InsertOrder (order_row u cartItems)) w)))))))"
  by (rule handleSubmit_placed) (simp_all add: no_faults_def)

lemma placed_products:
  "cartItems \<noteq> [] \<Longrightarrow>
     tbl_products (snd (handleSubmit no_faults (Some u) cartItems w)) pid =
       (case tbl_products w pid of
          None \<Rightarrow> None
        | Some stock \<Rightarrow>
            Some (foldl (\<lambda>s item. max 0 (s - item_quantity item)) stock
                    (filter (\<lambda>item. item_id item = pid) cartItems)))"
  by (simp add: placed_no_faults send_cart_frame stock_loop_products send_points_frame
        send_order_frame)

lemma no_faults_apply: "no_faults req = None"
  by (simp add: no_faults_def)

lemma clamp_fold_nonneg:
  "xs \<noteq> [] \<Longrightarrow> 0 \<le> foldl (\<lambda>s item. max 0 (s - item_quantity item)) (stock :: int) xs"
  by (cases xs rule: rev_cases) simp_all

lemma total_mug_pen: "getTotalPrice [mug, pen] = Finite (2110182716027699 / 17592186044416)"
  by (simp add: getTotalPrice_def mug_def pen_def number_eval)

lemma total_pen: "getTotalPrice [pen] = Finite (1758338995139379 / 17592186044416)"
  by (simp add: getTotalPrice_def pen_def number_eval)



lemma total_mug_ghost: "getTotalPrice [mug, ghost] = Finite (47 / 2)"
  by (simp add: getTotalPrice_def mug_def ghost_def number_eval)


lemma points_exact:
  assumes "\<bar>n\<bar> \<le> 2 ^ 53" and "\<bar>n + p\<bar> \<le> 2 ^ 53"
  shows "stored_points (js_add (to_number (of_int n)) (Finite (of_int p))) = Some (n + p)"
proof -
  have "js_add (to_number (of_int n)) (Finite (of_int p)) = to_number (of_int (n + p))"
    by (simp add: to_number_of_int [OF assms(1)])
  also have "\<dots> = Finite (of_int (n + p))"
    by (rule to_number_of_int [OF assms(2)])
  finally show ?thesis by simp
qed

lemma currentPoints_some:
  "tbl_profiles w u = Some pr \<Longrightarrow> loyalty_points pr = Some n \<Longrightarrow> currentPoints w u = n"
  by (simp add: currentPoints_def)

lemma placed_sent:
  assumes "cartItems \<noteq> []"
      and "fl (InsertOrder (order_row u cartItems)) = None"
      and "fl (UpdateLoyaltyPoints u (js_add (to_number (of_int (currentPoints w u)))
                                (Math_floor (getTotalPrice cartItems)))) = None"
  shows "\<exists>rs. sent (snd (handleSubmit fl (Some u) cartItems w)) =
            sent w @ [InsertOrder (order_row u cartItems),
                      UpdateLoyaltyPoints u (js_add (to_number (of_int (currentPoints w u)))
                                                    (Math_floor (getTotalPrice cartItems)))]
                   @ rs @ [UpdateCartProducts u []]
          \<and> map written rs =
              concat (map (\<lambda>item. [(Products, item_id item), (Inventory, item_id item)])
                (filter (\<lambda>item. tbl_products w (item_id item) \<noteq> None) cartItems))"
proof -
  let ?pts = "js_add (to_number (of_int (currentPoints w u))) (Math_floor (getTotalPrice cartItems))"
  let ?w2 = "snd (send fl (UpdateLoyaltyPoints u ?pts)
               (snd (send fl (InsertOrder (order_row u cartItems)) w)))"
  have p2: "tbl_products ?w2 = tbl_products w"
    by (simp add: send_points_frame send_order_frame)
  obtain rs where rs: "sent (stock_loop fl cartItems ?w2) = sent ?w2 @ rs"
    "map written rs =
       concat (map (\<lambda>item. [(Products, item_id item), (Inventory, item_id item)])
                 (filter (\<lambda>item. tbl_products ?w2 (item_id item) \<noteq> None) cartItems))"
    using stock_loop_sent [of fl cartItems ?w2] by blast
  show ?thesis
    using rs by (intro exI [of _ rs]) (simp add: handleSubmit_placed [OF assms] sent_send p2)
qed

lemma placed_profiles:
  assumes "cartItems \<noteq> []"
      and "fl (InsertOrder (order_row u cartItems)) = None"
      and "fl (UpdateLoyaltyPoints u (js_add (to_number (of_int (currentPoints w u)))
                                (Math_floor (getTotalPrice cartItems)))) = None"
      and "tbl_profiles w u = Some pr"
  shows "tbl_profiles (snd (handleSubmit fl (Some u) cartItems w)) u =
           Some (pr\<lparr>loyalty_points :=
                   stored_points (js_add (to_number (of_int (currentPoints w u)))
                                         (Math_floor (getTotalPrice cartItems)))\<rparr>)"
  using assms(3,4)
  by (simp add: handleSubmit_placed [OF assms(1,2,3)] send_cart_frame stock_loop_frame
        send_points_profiles send_order_frame)

lemma placed_balance:
  assumes "cartItems \<noteq> []"
      and "fl (InsertOrder (order_row u cartItems)) = None"
      and "fl (UpdateLoyaltyPoints u (js_add (to_number (of_int (currentPoints w u)))
                                (Math_floor (getTotalPrice cartItems)))) = None"
      and "tbl_profiles w u = Some pr" and "loyalty_points pr = Some n"
      and "Math_floor (getTotalPrice cartItems) = Finite (of_int p)"
      and "\<bar>n\<bar> \<le> 2 ^ 53" and "\<bar>n + p\<bar> \<le> 2 ^ 53"
  shows "tbl_profiles (snd (handleSubmit fl (Some u) cartItems w)) u =
           Some (pr\<lparr>loyalty_points := Some (n + p)\<rparr>)"
proof -
  have c: "currentPoints w u = n" using assms(4,5) by (rule currentPoints_some)
  show ?thesis
    using placed_profiles [OF assms(1,2,3,4)] points_exact [OF assms(7,8)]
    by (simp add: c assms(6))
qed


section \<open>Stock at checkout\<close>

text \<open>
  C1: a checkout that the store accepts never fails, whatever the stock levels. It leaves
  the stock of an existing product at the result of clamping, line item by line item in
  cart order, \<open>max 0 (stock - quantity)\<close>; for the product of a single line item that
  is \<open>max 0 (stock - quantity)\<close> of the stock before checkout, which is 0 when the
  quantity exceeds the stock, and it is never negative.
\<close>

theorem handleSubmit_stock_clamp:
  assumes "cartItems \<noteq> []" and "tbl_products w pid = Some stock"
  shows "fst (handleSubmit no_faults (Some u) cartItems w) =
           [ToastOrderPlaced (Math_floor (getTotalPrice cartItems)), Navigate ''/orders'']
     \<and> tbl_products (snd (handleSubmit no_faults (Some u) cartItems w)) pid =
           Some (foldl (\<lambda>s item. max 0 (s - item_quantity item)) stock
                   (filter (\<lambda>item. item_id item = pid) cartItems))
     \<and> (\<forall>item. filter (\<lambda>item. item_id item = pid) cartItems = [item] \<longrightarrow>
           tbl_products (snd (handleSubmit no_faults (Some u) cartItems w)) pid =
             Some (max 0 (stock - item_quantity item))
           \<and> (stock < item_quantity item \<longrightarrow>
                tbl_products (snd (handleSubmit no_faults (Some u) cartItems w)) pid = Some 0))
     \<and> (filter (\<lambda>item. item_id item = pid) cartItems \<noteq> [] \<longrightarrow>
           (\<exists>n \<ge> 0. tbl_products (snd (handleSubmit no_faults (Some u) cartItems w)) pid = Some n))"
proof (intro conjI allI impI)
  show "fst (handleSubmit no_faults (Some u) cartItems w) =
           [ToastOrderPlaced (Math_floor (getTotalPrice cartItems)), Navigate ''/orders'']"
    using assms(1) by (simp add: placed_no_faults)
next
  show fin: "tbl_products (snd (handleSubmit no_faults (Some u) cartItems w)) pid =
           Some (foldl (\<lambda>s item. max 0 (s - item_quantity item)) stock
                   (filter (\<lambda>item. item_id item = pid) cartItems))"
    using assms by (simp add: placed_products)
  {
    fix item
    assume one: "filter (\<lambda>item. item_id item = pid) cartItems = [item]"
    show "tbl_products (snd (handleSubmit no_faults (Some u) cartItems w)) pid =
             Some (max 0 (stock - item_quantity item))"
      by (simp add: fin one)
    assume "stock < item_quantity item"
    then show "tbl_products (snd (handleSubmit no_faults (Some u) cartItems w)) pid = Some 0"
      by (simp add: fin one)
  }
  assume "filter (\<lambda>item. item_id item = pid) cartItems \<noteq> []"
  then show "\<exists>n \<ge> 0. tbl_products (snd (handleSubmit no_faults (Some u) cartItems w)) pid = Some n"
    by (simp add: fin clamp_fold_nonneg)
qed

theorem handleSubmit_stock_clamp_witness:
  "tbl_products shop ''pen'' = Some 3 \<and> item_quantity pen = 5
   \<and> tbl_products (snd (handleSubmit no_faults (Some ''alice'') [mug, pen] shop)) ''pen'' = Some 0
   \<and> fst (handleSubmit no_faults (Some ''alice'') [mug, pen] shop) =
        [ToastOrderPlaced (Finite 119), Navigate ''/orders'']"
  using handleSubmit_stock_clamp [of "[mug, pen]" shop "''pen''" 3 "''alice''"]
  unfolding total_mug_pen
  by (simp add: shop_def mug_def pen_def floor_rat_numeral)

section \<open>Loyalty points\<close>




section \<open>Order of the writes\<close>



section \<open>What checkout hands back\<close>

text \<open>
  C6, as stated, fails: \<open>handleSubmit\<close> returns nothing, and what it shows is the same toast
  and navigation for two shops in which the pen's new stock differs (0 and 4).
\<close>

theorem handleSubmit_returns_no_stock:
  "fst (handleSubmit no_faults (Some ''alice'') [pen] shop) =
     [ToastOrderPlaced (Finite 99), Navigate ''/orders'']
   \<and> fst (handleSubmit no_faults (Some ''alice'') [pen] shop_restocked) =
     [ToastOrderPlaced (Finite 99), Navigate ''/orders'']
   \<and> tbl_products (snd (handleSubmit no_faults (Some ''alice'') [pen] shop)) ''pen'' = Some 0
   \<and> tbl_products (snd (handleSubmit no_faults (Some ''alice'') [pen] shop_restocked)) ''pen'' =
       Some 4"
proof -
  have "fst (handleSubmit no_faults (Some ''alice'') [pen] w) =
          [ToastOrderPlaced (Finite 99), Navigate ''/orders'']" for w
    by (simp add: placed_no_faults total_pen floor_rat_numeral)
  moreover have "tbl_products (snd (handleSubmit no_faults (Some ''alice'') [pen] shop)) ''pen'' =
                   Some 0"
    by (simp add: placed_products) (simp add: shop_def pen_def)
  moreover have "tbl_products (snd (handleSubmit no_faults (Some ''alice'') [pen] shop_restocked))
                   ''pen'' = Some 4"
    by (simp add: placed_products) (simp add: shop_restocked_def shop_def pen_def)
  ultimately show ?thesis by simp
qed

text \<open>
  C6, amended: a checkout that the store accepts shows the points earned (the floor of the
  total) and navigates to the orders page; what it shows depends on the cart items only,
  not on the store. The created order, with status pending, is appended to the orders
  table, and the new stock of every existing product is written to the products table.
\<close>

theorem handleSubmit_shows_points_only:
  assumes "cartItems \<noteq> []"
  shows "fst (handleSubmit no_faults (Some u) cartItems w) =
           [ToastOrderPlaced (Math_floor (getTotalPrice cartItems)), Navigate ''/orders'']
     \<and> fst (handleSubmit no_faults (Some u) cartItems w') =
         fst (handleSubmit no_faults (Some u) cartItems w)
     \<and> tbl_orders (snd (handleSubmit no_faults (Some u) cartItems w)) =
         tbl_orders w @ [order_row u cartItems]
     \<and> order_status (order_row u cartItems) = ''pending''
     \<and> (\<forall>pid stock. tbl_products w pid = Some stock \<longrightarrow>
           tbl_products (snd (handleSubmit no_faults (Some u) cartItems w)) pid =
             Some (foldl (\<lambda>s item. max 0 (s - item_quantity item)) stock
                     (filter (\<lambda>item. item_id item = pid) cartItems)))"
proof -
  have "\<forall>pid stock. tbl_products w pid = Some stock \<longrightarrow>
           tbl_products (snd (handleSubmit no_faults (Some u) cartItems w)) pid =
             Some (foldl (\<lambda>s item. max 0 (s - item_quantity item)) stock
                     (filter (\<lambda>item. item_id item = pid) cartItems))"
    using assms by (simp add: placed_products)
  then show ?thesis
    using assms
    by (simp add: placed_no_faults send_cart_frame stock_loop_frame send_points_frame
          send_order_orders no_faults_apply order_row_def del: stock_loop.simps)
qed

theorem handleSubmit_shows_points_only_witness:
  "fst (handleSubmit no_faults (Some ''alice'') [pen] shop_restocked) =
     [ToastOrderPlaced (Finite 99), Navigate ''/orders'']
   \<and> tbl_orders (snd (handleSubmit no_faults (Some ''alice'') [pen] shop_restocked)) =
       [order_row ''alice'' [pen]]
   \<and> tbl_products (snd (handleSubmit no_faults (Some ''alice'') [pen] shop_restocked)) ''pen'' =
       Some 4"
  using handleSubmit_shows_points_only [of "[pen]" "''alice''" shop_restocked shop]
  unfolding total_pen
  by (simp add: shop_restocked_def shop_def pen_def floor_rat_numeral)

section \<open>Products that are gone\<close>

text \<open>
  C10: when a line item's product has no row in \<open>products\<close> and the order insert and the
  points update are accepted, the stock loop skips the item: the product still has no
  row, the inventory record for its identifier is as before, and no request written
  during checkout addresses its product or inventory row. The order is created with the
  item in its snapshot and with the total of the whole cart. The points are the floor of
  that total, into which the item's price times quantity enters at its place in the
  cart; the points update with them is sent, and the profile's points are set to the
  balance it carries: the old points plus the points earned when both are within
  \<open>2 ^ 53\<close>.
\<close>

theorem handleSubmit_missing_product:
  assumes "item \<in> set cartItems"
      and "tbl_products w (item_id item) = None"
      and "fl (InsertOrder (order_row u cartItems)) = None"
      and "fl (UpdateLoyaltyPoints u (js_add (to_number (of_int (currentPoints w u)))
                                (Math_floor (getTotalPrice cartItems)))) = None"
  shows "tbl_products (snd (handleSubmit fl (Some u) cartItems w)) (item_id item) = None
     \<and> tbl_inventory (snd (handleSubmit fl (Some u) cartItems w)) (item_id item) =
         tbl_inventory w (item_id item)
     \<and> (\<exists>rs. sent (snd (handleSubmit fl (Some u) cartItems w)) = sent w @ rs
            \<and> (\<forall>r \<in> set rs. written r \<noteq> (Products, item_id item)
                            \<and> written r \<noteq> (Inventory, item_id item))
            \<and> UpdateLoyaltyPoints u (js_add (to_number (of_int (currentPoints w u)))
                                            (Math_floor (getTotalPrice cartItems))) \<in> set rs)
     \<and> tbl_orders (snd (handleSubmit fl (Some u) cartItems w)) =
         tbl_orders w @ [order_row u cartItems]
     \<and> item \<in> set (order_products (order_row u cartItems))
     \<and> order_total (order_row u cartItems) = getTotalPrice cartItems
     \<and> fst (handleSubmit fl (Some u) cartItems w) =
         [ToastOrderPlaced (Math_floor (getTotalPrice cartItems)), Navigate ''/orders'']
     \<and> (\<forall>pre post. cartItems = pre @ item # post \<longrightarrow>
           getTotalPrice cartItems =
             foldl (\<lambda>total item.
                      js_add total (js_mul (to_number (item_price item))
                                           (to_number (of_int (item_quantity item)))))
               (js_add (getTotalPrice pre)
                  (js_mul (to_number (item_price item))
                          (to_number (of_int (item_quantity item)))))
               post)
     \<and> (\<forall>pr. tbl_profiles w u = Some pr \<longrightarrow>
           tbl_profiles (snd (handleSubmit fl (Some u) cartItems w)) u =
             Some (pr\<lparr>loyalty_points :=
                     stored_points (js_add (to_number (of_int (currentPoints w u)))
                                           (Math_floor (getTotalPrice cartItems)))\<rparr>))
     \<and> (\<forall>pr n p. tbl_profiles w u = Some pr \<and> loyalty_points pr = Some n
           \<and> Math_floor (getTotalPrice cartItems) = Finite (of_int p)
           \<and> \<bar>n\<bar> \<le> 2 ^ 53 \<and> \<bar>n + p\<bar> \<le> 2 ^ 53 \<longrightarrow>
           tbl_profiles (snd (handleSubmit fl (Some u) cartItems w)) u =
             Some (pr\<lparr>loyalty_points := Some (n + p)\<rparr>))"
proof -
  let ?pts = "js_add (to_number (of_int (currentPoints w u))) (Math_floor (getTotalPrice cartItems))"
  let ?w1 = "snd (send fl (InsertOrder (order_row u cartItems)) w)"
  let ?w2 = "snd (send fl (UpdateLoyaltyPoints u ?pts) ?w1)"
  let ?w3 = "stock_loop fl cartItems ?w2"
  from assms(1) have ne: "cartItems \<noteq> []" by auto
  have hs: "handleSubmit fl (Some u) cartItems w =
              ([ToastOrderPlaced (Math_floor (getTotalPrice cartItems)), Navigate ''/orders''],
               snd (send fl (UpdateCartProducts u []) ?w3))"
    by (rule handleSubmit_placed [OF ne assms(3) assms(4)])
  have p2: "tbl_products ?w2 = tbl_products w"
    by (simp add: send_points_frame send_order_frame)
  have i2: "tbl_inventory ?w2 = tbl_inventory w"
    by (simp add: send_points_frame send_order_frame)
  have none2: "tbl_products ?w2 (item_id item) = None"
    using assms(2) by (simp add: p2)
  have a: "tbl_products (snd (handleSubmit fl (Some u) cartItems w)) (item_id item) = None"
    using none2 by (simp add: hs send_cart_frame stock_loop_dom)
  have b: "tbl_inventory (snd (handleSubmit fl (Some u) cartItems w)) (item_id item) =
             tbl_inventory w (item_id item)"
    using stock_loop_missing [OF none2, of fl cartItems]
    by (simp add: hs send_cart_frame i2)
  obtain rs where rs: "sent ?w3 = sent ?w2 @ rs"
    "map written rs =
       concat (map (\<lambda>item. [(Products, item_id item), (Inventory, item_id item)])
                 (filter (\<lambda>item. tbl_products ?w2 (item_id item) \<noteq> None) cartItems))"
    using stock_loop_sent [of fl cartItems ?w2] by blast
  have touched: "\<forall>r \<in> set rs. written r \<noteq> (Products, item_id item)
                             \<and> written r \<noteq> (Inventory, item_id item)"
  proof
    fix r
    assume "r \<in> set rs"
    then have "written r \<in> set (map written rs)" by simp
    then have "written r \<in>
        (\<Union>it \<in> {it \<in> set cartItems. tbl_products ?w2 (item_id it) \<noteq> None}.
            {(Products, item_id it), (Inventory, item_id it)})"
      unfolding rs(2) by auto
    with none2 show "written r \<noteq> (Products, item_id item)
                     \<and> written r \<noteq> (Inventory, item_id item)"
      by auto
  qed
  have c: "\<exists>rs. sent (snd (handleSubmit fl (Some u) cartItems w)) = sent w @ rs
            \<and> (\<forall>r \<in> set rs. written r \<noteq> (Products, item_id item)
                            \<and> written r \<noteq> (Inventory, item_id item))
            \<and> UpdateLoyaltyPoints u ?pts \<in> set rs"
    by (rule exI [of _ "[InsertOrder (order_row u cartItems), UpdateLoyaltyPoints u ?pts]
                         @ rs @ [UpdateCartProducts u []]"])
       (simp add: hs sent_send rs(1) touched)
  have d: "tbl_orders (snd (handleSubmit fl (Some u) cartItems w)) =
             tbl_orders w @ [order_row u cartItems]"
    using assms(3)
    by (simp add: hs send_cart_frame stock_loop_frame send_points_frame send_order_orders)
  have e: "item \<in> set (order_products (order_row u cartItems))
           \<and> order_total (order_row u cartItems) = getTotalPrice cartItems"
    using assms(1) by (simp add: order_row_def)
  have f: "fst (handleSubmit fl (Some u) cartItems w) =
         [ToastOrderPlaced (Math_floor (getTotalPrice cartItems)), Navigate ''/orders'']"
    by (simp add: hs)
  have g: "\<forall>pre post. cartItems = pre @ item # post \<longrightarrow>
           getTotalPrice cartItems =
             foldl (\<lambda>total item.
                      js_add total (js_mul (to_number (item_price item))
                                           (to_number (of_int (item_quantity item)))))
               (js_add (getTotalPrice pre)
                  (js_mul (to_number (item_price item))
                          (to_number (of_int (item_quantity item)))))
               post"
    by (auto simp: getTotalPrice_split)
  have h: "\<forall>pr. tbl_profiles w u = Some pr \<longrightarrow>
           tbl_profiles (snd (handleSubmit fl (Some u) cartItems w)) u =
             Some (pr\<lparr>loyalty_points := stored_points ?pts\<rparr>)"
    using placed_profiles [OF ne assms(3) assms(4)] by blast
  have i: "\<forall>pr n p. tbl_profiles w u = Some pr \<and> loyalty_points pr = Some n
           \<and> Math_floor (getTotalPrice cartItems) = Finite (of_int p)
           \<and> \<bar>n\<bar> \<le> 2 ^ 53 \<and> \<bar>n + p\<bar> \<le> 2 ^ 53 \<longrightarrow>
           tbl_profiles (snd (handleSubmit fl (Some u) cartItems w)) u =
             Some (pr\<lparr>loyalty_points := Some (n + p)\<rparr>)"
    using placed_balance [OF ne assms(3) assms(4)] by blast
  from a b c d e f g h i show ?thesis by blast
qed

theorem handleSubmit_missing_product_witness:
  "ghost \<in> set [mug, ghost] \<and> tbl_products shop (item_id ghost) = None
   \<and> tbl_products (snd (handleSubmit no_faults (Some ''alice'') [mug, ghost] shop)) ''ghost'' = None
   \<and> tbl_inventory (snd (handleSubmit no_faults (Some ''alice'') [mug, ghost] shop)) ''ghost'' = None
   \<and> tbl_orders (snd (handleSubmit no_faults (Some ''alice'') [mug, ghost] shop)) =
        [order_row ''alice'' [mug, ghost]]
   \<and> getTotalPrice [mug] = Finite 20 \<and> getTotalPrice [mug, ghost] = Finite (47 / 2)
   \<and> fst (handleSubmit no_faults (Some ''alice'') [mug, ghost] shop) =
        [ToastOrderPlaced (Finite 23), Navigate ''/orders'']
   \<and> tbl_profiles shop ''alice'' = Some \<lparr>loyalty_points = Some 7\<rparr>
   \<and> tbl_profiles (snd (handleSubmit no_faults (Some ''alice'') [mug, ghost] shop)) ''alice'' =
        Some \<lparr>loyalty_points = Some 30\<rparr>"
proof -
  have t1: "getTotalPrice [mug] = Finite 20"
    by (simp add: getTotalPrice_def mug_def number_eval)
  have h1: "ghost \<in> set [mug, ghost]" by simp
  have cp: "currentPoints shop ''alice'' = 7" by (simp add: currentPoints_def shop_def)
  have p: "tbl_profiles shop ''alice'' = Some \<lparr>loyalty_points = Some 7\<rparr>"
          "tbl_products shop (item_id ghost) = None" "tbl_inventory shop ''ghost'' = None"
          "item_id ghost = ''ghost''" "tbl_orders shop = []"
          "tbl_products shop ''ghost'' = None"
    by (simp_all add: shop_def ghost_def)
  have "tbl_products (snd (handleSubmit no_faults (Some ''alice'') [mug, ghost] shop)) ''ghost'' = None
   \<and> tbl_inventory (snd (handleSubmit no_faults (Some ''alice'') [mug, ghost] shop)) ''ghost'' = None
   \<and> tbl_orders (snd (handleSubmit no_faults (Some ''alice'') [mug, ghost] shop)) =
        [order_row ''alice'' [mug, ghost]]
   \<and> fst (handleSubmit no_faults (Some ''alice'') [mug, ghost] shop) =
        [ToastOrderPlaced (Finite 23), Navigate ''/orders'']
   \<and> tbl_profiles (snd (handleSubmit no_faults (Some ''alice'') [mug, ghost] shop)) ''alice'' =
        Some \<lparr>loyalty_points = Some 30\<rparr>"
    using handleSubmit_missing_product [of ghost "[mug, ghost]" shop no_faults "''alice''",
            OF h1 p(2) no_faults_apply no_faults_apply]
    unfolding total_mug_ghost
    by (simp add: p cp floor_rat_numeral number_eval)
  then show ?thesis by (simp add: p t1 total_mug_ghost)
qed

section \<open>Without a user\<close>

text \<open>
  The handlers of the checkout, cart and wishlist pages never ask the identity provider:
  what they show and write is the same whatever it would report.
\<close>

lemma reply_auth: "reply fl (w\<lparr>auth_user := a\<rparr>) req = reply fl w req"
  by (cases req) (simp_all add: reply_def split: option.splits)

lemma apply_request_auth:
  "apply_request req (w\<lparr>auth_user := a\<rparr>) = (apply_request req w)\<lparr>auth_user := a\<rparr>"
  by (cases req) (simp_all split: option.splits)

lemma send_auth:
  "send fl req (w\<lparr>auth_user := a\<rparr>) =
     (fst (send fl req w), (snd (send fl req w))\<lparr>auth_user := a\<rparr>)"
  by (simp add: send_def reply_auth apply_request_auth split: option.splits)

lemma stock_loop_auth:
  "stock_loop fl items (w\<lparr>auth_user := a\<rparr>) = (stock_loop fl items w)\<lparr>auth_user := a\<rparr>"
  by (induction items arbitrary: w) (simp_all add: send_auth Let_def split: option.splits)

lemma handleSubmit_auth:
  "handleSubmit fl user cartItems (w\<lparr>auth_user := a\<rparr>) =
     (fst (handleSubmit fl user cartItems w),
      (snd (handleSubmit fl user cartItems w))\<lparr>auth_user := a\<rparr>)"
  by (simp add: handleSubmit_def send_auth stock_loop_auth currentPoints_def Let_def split_beta
           split: option.splits)

lemma updateCartInDatabase_auth:
  "updateCartInDatabase fl user items (w\<lparr>auth_user := a\<rparr>) =
     (fst (updateCartInDatabase fl user items w),
      (snd (updateCartInDatabase fl user items w))\<lparr>auth_user := a\<rparr>)"
  by (simp add: updateCartInDatabase_def send_auth split_beta split: option.splits)

lemma addToCart_auth:
  "addToCart fl user p (w\<lparr>auth_user := a\<rparr>) =
     (fst (addToCart fl user p w), (snd (addToCart fl user p w))\<lparr>auth_user := a\<rparr>)"
  by (simp add: addToCart_def addToCartAs_def send_auth split_beta Let_def
           split: option.splits sum.splits)

text \<open>
  C8, as stated, fails: the checkout page loads while the customer is signed in and keeps
  her as its user; after her session has ended, \<open>handleSubmit\<close> still sends all seven
  writes, the store accepting creates the order, and nothing asks her to sign in.
\<close>

theorem handleSubmit_stale_session_writes:
  "fetchCartAndUser shop = ([], Some ''alice'', [mug, pen])
   \<and> auth_user signed_out = None
   \<and> map written (sent (snd (handleSubmit no_faults (Some ''alice'') [mug, pen] signed_out))) =
       [(Orders, ''alice''), (Profiles, ''alice''), (Products, ''mug''), (Inventory, ''mug''),
        (Products, ''pen''), (Inventory, ''pen''), (Carts, ''alice'')]
   \<and> tbl_orders (snd (handleSubmit no_faults (Some ''alice'') [mug, pen] signed_out)) =
       [order_row ''alice'' [mug, pen]]
   \<and> \<not> list_ex is_sign_in_prompt
         (fst (handleSubmit no_faults (Some ''alice'') [mug, pen] signed_out))"
proof -
  have a: "fetchCartAndUser shop = ([], Some ''alice'', [mug, pen])"
    "auth_user signed_out = None"
    by (simp_all add: fetchCartAndUser_def shop_def signed_out_def)
  have b: "map written (sent (snd (handleSubmit no_faults (Some ''alice'') [mug, pen] signed_out))) =
       [(Orders, ''alice''), (Profiles, ''alice''), (Products, ''mug''), (Inventory, ''mug''),
        (Products, ''pen''), (Inventory, ''pen''), (Carts, ''alice'')]"
    using placed_sent [of "[mug, pen]" no_faults "''alice''" signed_out]
    by (auto simp: no_faults_apply order_row_def signed_out_def shop_def mug_def pen_def)
  have c: "tbl_orders (snd (handleSubmit no_faults (Some ''alice'') [mug, pen] signed_out)) =
       [order_row ''alice'' [mug, pen]]"
    by (simp add: placed_no_faults send_cart_frame stock_loop_frame send_points_frame
          send_order_orders no_faults_apply del: stock_loop.simps)
       (simp add: signed_out_def shop_def)
  have d: "\<not> list_ex is_sign_in_prompt
         (fst (handleSubmit no_faults (Some ''alice'') [mug, pen] signed_out))"
    by (simp add: placed_no_faults)
  from a b c d show ?thesis by simp
qed

text \<open>
  C8, amended: the add-to-cart, add-to-wishlist and submit-review handlers of the product
  card and product detail pages ask the identity provider on every call; when it reports
  no user they show the authentication-required toast and write nothing. The checkout,
  cart and wishlist pages ask it when they load; when it then reports no user they
  navigate to the sign-in page and keep no user and no items, and with no user kept
  \<open>handleSubmit\<close>, the wishlist page's \<open>addToCart\<close> and the cart page's
  \<open>updateCartInDatabase\<close> (under \<open>updateQuantity\<close> and \<open>removeItem\<close>) write nothing.
  These handlers do not ask again: with a user kept from loading they show and write the
  same whatever the identity provider reports by then. \<open>removeFromWishlist\<close> does not
  look at the user: it sends its delete in every case.
\<close>

theorem unauthenticated_no_write:
  "(auth_user w = None \<longrightarrow>
      handleAddToCart fl p w = ([ToastAuthRequired ''Please sign in to add items to cart''], w)
      \<and> handleAddToWishlist fl p w =
          ([ToastAuthRequired ''Please sign in to add items to wishlist''], w)
      \<and> handleSubmitReview fl pid newRating newComment w =
          ([ToastAuthRequired ''Please sign in to submit a review''], w)
      \<and> fetchCartAndUser w = ([Navigate ''/auth''], None, [])
      \<and> fetchCart w = ([Navigate ''/auth''], None, [])
      \<and> fetchWishlist w = ([Navigate ''/auth''], None, []))
   \<and> handleSubmit fl None cartItems w = ([], w)
   \<and> addToCart fl None p w = ([], w)
   \<and> updateCartInDatabase fl None cartItems w = ([], w)
   \<and> snd (updateQuantity fl None cartItems itemId newQuantity w) = ([], w)
   \<and> snd (removeItem fl None cartItems itemId w) = ([ToastItemRemoved], w)
   \<and> handleSubmit fl user cartItems (w\<lparr>auth_user := a\<rparr>) =
       (fst (handleSubmit fl user cartItems w),
        (snd (handleSubmit fl user cartItems w))\<lparr>auth_user := a\<rparr>)
   \<and> updateCartInDatabase fl user cartItems (w\<lparr>auth_user := a\<rparr>) =
       (fst (updateCartInDatabase fl user cartItems w),
        (snd (updateCartInDatabase fl user cartItems w))\<lparr>auth_user := a\<rparr>)
   \<and> addToCart fl user p (w\<lparr>auth_user := a\<rparr>) =
       (fst (addToCart fl user p w), (snd (addToCart fl user p w))\<lparr>auth_user := a\<rparr>)
   \<and> sent (snd (snd (removeFromWishlist fl wishlistItems wishlistId w))) =
       sent w @ [DeleteWishlist wishlistId]"
proof -
  have "sent (snd (snd (removeFromWishlist fl wishlistItems wishlistId w))) =
          sent w @ [DeleteWishlist wishlistId]"
    by (simp add: removeFromWishlist_def send_def split: option.splits)
  then show ?thesis
    by (simp add: handleAddToCart_def handleAddToWishlist_def handleSubmitReview_def
          handleSubmit_def addToCart_def updateCartInDatabase_def updateQuantity_def
          removeItem_def fetchCartAndUser_def fetchCart_def fetchWishlist_def Let_def
          handleSubmit_auth [unfolded handleSubmit_def]
          updateCartInDatabase_auth [unfolded updateCartInDatabase_def]
          addToCart_auth [unfolded addToCart_def])
qed

theorem unauthenticated_no_write_witness:
  "auth_user signed_out = None
   \<and> handleAddToCart no_faults pen_product signed_out =
       ([ToastAuthRequired ''Please sign in to add items to cart''], signed_out)
   \<and> list_ex is_sign_in_prompt (fst (handleAddToCart no_faults pen_product signed_out))
   \<and> handleAddToWishlist no_faults pen_product signed_out =
       ([ToastAuthRequired ''Please sign in to add items to wishlist''], signed_out)
   \<and> handleSubmitReview no_faults ''pen'' 5 [0x20, 0x6F, 0x6B, 0xA0] signed_out =
       ([ToastAuthRequired ''Please sign in to submit a review''], signed_out)
   \<and> fetchCartAndUser signed_out = ([Navigate ''/auth''], None, [])
   \<and> list_ex is_sign_in_prompt (fst (fetchCartAndUser signed_out))
   \<and> fetchCart signed_out = ([Navigate ''/auth''], None, [])
   \<and> fetchWishlist signed_out = ([Navigate ''/auth''], None, [])
   \<and> handleSubmit no_faults None [] signed_out = ([], signed_out)
   \<and> handleSubmit no_faults (Some ''alice'') [mug, pen] signed_out =
       (fst (handleSubmit no_faults (Some ''alice'') [mug, pen] shop),
        (snd (handleSubmit no_faults (Some ''alice'') [mug, pen] shop))\<lparr>auth_user := None\<rparr>)
   \<and> sent (snd (snd (removeFromWishlist no_faults [] (''alice'', ''mug'') signed_out))) =
       [DeleteWishlist (''alice'', ''mug'')]"
proof -
  have s: "auth_user signed_out = None" "sent signed_out = []"
    by (simp_all add: signed_out_def shop_def)
  from unauthenticated_no_write [where w = signed_out and fl = no_faults and p = pen_product
         and pid = "''pen''" and newRating = 5 and newComment = "[0x20, 0x6F, 0x6B, 0xA0]"
         and cartItems = "[]" and wishlistItems = "[]" and wishlistId = "(''alice'', ''mug'')"]
       unauthenticated_no_write [where w = shop and fl = no_faults and user = "Some ''alice''"
         and cartItems = "[mug, pen]" and a = None]
  show ?thesis
    by (simp add: s) (simp add: signed_out_def)
qed

section \<open>Wishlist duplicates\<close>

text \<open>
  C9: for a signed-in user, a wishlist insert that fails with the duplicate-key code 23505
  is reported as success (the added-to-wishlist toast); a failure with any other code is
  reported as an error; an accepted insert is reported as success and adds the pair. In
  particular, adding a product that already is on the user's wishlist, with no failure of
  the store itself, is reported as success and leaves the wishlist as it was.
\<close>

theorem handleAddToWishlist_duplicate:
  assumes "auth_user w = Some u"
  shows "(\<forall>e. reply fl w (InsertWishlist u (prod_id p)) = Some e \<and> error_code e = ''23505'' \<longrightarrow>
            handleAddToWishlist fl p w =
              ([ToastAddedToWishlist (prod_name p)],
               w\<lparr>sent := sent w @ [InsertWishlist u (prod_id p)]\<rparr>))
     \<and> (\<forall>e. reply fl w (InsertWishlist u (prod_id p)) = Some e \<and> error_code e \<noteq> ''23505'' \<longrightarrow>
            handleAddToWishlist fl p w =
              ([ToastError ''Failed to add item to wishlist''],
               w\<lparr>sent := sent w @ [InsertWishlist u (prod_id p)]\<rparr>))
     \<and> (reply fl w (InsertWishlist u (prod_id p)) = None \<longrightarrow>
            fst (handleAddToWishlist fl p w) = [ToastAddedToWishlist (prod_name p)]
            \<and> tbl_wishlists (snd (handleAddToWishlist fl p w)) =
                tbl_wishlists w @ [(u, prod_id p)])
     \<and> ((u, prod_id p) \<in> set (tbl_wishlists w) \<and> fl (InsertWishlist u (prod_id p)) = None \<longrightarrow>
            fst (handleAddToWishlist fl p w) = [ToastAddedToWishlist (prod_name p)]
            \<and> tbl_wishlists (snd (handleAddToWishlist fl p w)) = tbl_wishlists w)"
  using assms
  by (auto simp: handleAddToWishlist_def send_def reply_def split: option.splits)

theorem handleAddToWishlist_duplicate_witness:
  "auth_user shop = Some ''alice'' \<and> (''alice'', ''mug'') \<in> set (tbl_wishlists shop)
   \<and> fst (handleAddToWishlist no_faults mug_product shop) = [ToastAddedToWishlist ''Mug'']
   \<and> tbl_wishlists (snd (handleAddToWishlist no_faults mug_product shop)) = [(''alice'', ''mug'')]
   \<and> fst (handleAddToWishlist (failing Wishlists) mug_product shop) =
        [ToastError ''Failed to add item to wishlist'']
   \<and> fst (handleAddToWishlist no_faults pen_product shop) = [ToastAddedToWishlist ''Pen'']
   \<and> tbl_wishlists (snd (handleAddToWishlist no_faults pen_product shop)) =
        [(''alice'', ''mug''), (''alice'', ''pen'')]"
  using handleAddToWishlist_duplicate [of shop "''alice''" no_faults mug_product]
        handleAddToWishlist_duplicate [of shop "''alice''" "failing Wishlists" mug_product]
        handleAddToWishlist_duplicate [of shop "''alice''" no_faults pen_product]
  by (simp add: shop_def mug_product_def pen_product_def reply_def no_faults_def failing_def)

end
